theory Spec2Isabelle
  imports Complex_Main "HOL-Library.AList"
begin

section \<open>JavaScript values\<close>

text \<open>
  The values a parsed JSON request body can hold at the fields the handlers read,
  together with \<open>undefined\<close> for a field that is absent. JSON text cannot denote NaN, so
  a \<open>JNum\<close> is always a proper number; numbers are idealised as reals (no rounding, no
  infinities, no negative zero). Arrays and nested objects are not modelled.
\<close>

datatype jsval = JUndefined | JNull | JBool bool | JNum real | JStr string

text \<open>The result of the conversion \<open>Number(v)\<close>, which can be NaN.\<close>

datatype number = NaN | Finite real

fun truthy :: "jsval \<Rightarrow> bool" where
  "truthy JUndefined = False"
| "truthy JNull = False"
| "truthy (JBool b) = b"
| "truthy (JNum r) = (r \<noteq> 0)"
| "truthy (JStr s) = (s \<noteq> [])"

fun truthy_number :: "number \<Rightarrow> bool" where
  "truthy_number NaN = False"
| "truthy_number (Finite r) = (r \<noteq> 0)"

fun truthy_string :: "string option \<Rightarrow> bool" where
  "truthy_string None = False"
| "truthy_string (Some s) = (s \<noteq> [])"

fun typeof_number :: "jsval \<Rightarrow> bool" where
  "typeof_number (JNum r) = True"
| "typeof_number v = False"

fun number_value :: "jsval \<Rightarrow> real" where
  "number_value (JNum r) = r"
| "number_value v = 0"

section \<open>Documents\<close>

text \<open>
  A document of the \<open>devices\<close> collection, with the fields the register and availability
  endpoints write: a field those endpoints may leave out, or write as \<open>null\<close>, is an
  option.
\<close>

record device =
  userId :: "number option"
  role :: string
  fcmToken :: "string option"
  isAvailable :: bool
  d_latitude :: "real option"
  d_longitude :: "real option"
  lastSeenAt :: "real option"

text \<open>An entry of the \<open>volunteers\<close> array built by the report handler (lines 177-181).\<close>

record volunteer =
  v_userId :: "number option"
  v_fcmToken :: string
  distanceKm :: "number option"

section \<open>Stored documents, collaborator calls and the environment\<close>

text \<open>
  A document of the \<open>emergencies\<close> collection (lines 136-145 and 294-299). The handlers
  key it by \<open>String(emergencyId)\<close>; the rendering of a number that is not NaN is
  canonical, so the model keys the collection by the number itself.
\<close>

record emergency =
  e_id :: real
  elderlyId :: number
  latitude :: real
  longitude :: real
  status :: string
  volunteerId :: "number option"
  createdAt :: real
  updatedAt :: real
  acceptedAt :: "real option"

text \<open>A document of the \<open>audit_logs\<close> collection.\<close>

record audit =
  a_emergencyId :: real
  action :: string
  actorRole :: string
  actorUserId :: "number option"
  notifiedVolunteerUserIds :: "number list option"
  a_createdAt :: real

text \<open>The object passed to \<open>ref.update\<close> on the generic status path (lines 338-345).\<close>

record patch =
  p_status :: string
  p_updatedAt :: real
  p_volunteerId :: "number option option"

text \<open>
  The calls a handler makes on its collaborators (Firebase initialisation, Firestore,
  Cloud Messaging), with their arguments. Each of them is awaited inside the handler's
  \<open>try\<close> block and may reject.
\<close>

datatype call =
    InitFirebase
  | EmergencySet real emergency
  | AuditAdd audit
  | DevicesQuery
  | SendEachForMulticast "string list" "(string \<times> string) list"
  | RunTransaction real
  | EmergencyGet real
  | DeviceGet string
  | Send string "(string \<times> string) list"
  | EmergencyUpdate real patch
  | EmergenciesQuery number
  | BatchCommit "real list"

text \<open>
  What a handler takes from outside the program while it serves one request: the
  built-in conversions between strings and numbers, the readings of \<open>Date.now()\<close> (by
  the line of index.js that reads the clock), which collaborator calls reject, the
  process environment, and what the double arithmetic of \<open>haversineKm\<close> returns on
  coordinates outside the geographic range.
\<close>

record env =
  StringToNumber :: "string \<Rightarrow> number"
  NumberToString :: "number \<Rightarrow> string"
  Date_now :: "nat \<Rightarrow> real"
  rejects :: "call \<Rightarrow> bool"
  ADMIN_TOKEN :: "string option"
  RETENTION_DAYS :: "string option"
  haversine_off_range :: "real \<Rightarrow> real \<Rightarrow> real \<Rightarrow> real \<Rightarrow> number"

text \<open>
  The state the handlers share: the three Firestore collections (the devices in the
  order a query returns them) and the journal of collaborator calls issued so far, in
  the order they were issued.
\<close>

record world =
  emergencies :: "(real \<times> emergency) list"
  devices :: "(string \<times> device) list"
  audit_logs :: "audit list"
  journal :: "call list"

datatype response =
    Created real
  | OkResponse
  | ValidationError string
  | Forbidden
  | NotFound
  | Conflict
  | ServerError
  | CleanupDone nat number

fun http_status :: "response \<Rightarrow> nat" where
  "http_status (Created i) = 201"
| "http_status OkResponse = 200"
| "http_status (ValidationError m) = 400"
| "http_status Forbidden = 403"
| "http_status NotFound = 404"
| "http_status Conflict = 409"
| "http_status ServerError = 500"
| "http_status (CleanupDone n d) = 200"

definition js_Number :: "env \<Rightarrow> jsval \<Rightarrow> number" where
  "js_Number env v =
     (case v of
        JUndefined \<Rightarrow> NaN
      | JNull \<Rightarrow> Finite 0
      | JBool b \<Rightarrow> Finite (if b then 1 else 0)
      | JNum r \<Rightarrow> Finite r
      | JStr s \<Rightarrow> StringToNumber env s)"

definition js_String :: "env \<Rightarrow> jsval \<Rightarrow> string" where
  "js_String env v =
     (case v of
        JUndefined \<Rightarrow> ''undefined''
      | JNull \<Rightarrow> ''null''
      | JBool b \<Rightarrow> (if b then ''true'' else ''false'')
      | JNum r \<Rightarrow> NumberToString env (Finite r)
      | JStr s \<Rightarrow> s)"

text \<open>\<open>req.body || {}\<close> and the reading of one of its fields by destructuring.\<close>

definition field :: "(string \<rightharpoonup> jsval) option \<Rightarrow> string \<Rightarrow> jsval" where
  "field body k =
     (case body of
        None \<Rightarrow> JUndefined
      | Some b \<Rightarrow> (case b k of None \<Rightarrow> JUndefined | Some v \<Rightarrow> v))"

text \<open>
  An awaited collaborator call: it is entered in the journal; when it rejects, the
  handler's \<open>catch\<close> answers 500 and nothing after the call runs.
\<close>

definition attempt ::
  "env \<Rightarrow> call \<Rightarrow> world \<Rightarrow> (world \<Rightarrow> world \<times> response) \<Rightarrow> world \<times> response" where
  "attempt env c w k =
     (let w' = w\<lparr>journal := journal w @ [c]\<rparr>
      in if rejects env c then (w', ServerError) else k w')"

section \<open>Geo distance\<close>

text \<open>The formula of \<open>haversineKm\<close> (index.js, lines 27-39), over the reals.\<close>

definition haversineFormula :: "real \<Rightarrow> real \<Rightarrow> real \<Rightarrow> real \<Rightarrow> real" where
  "haversineFormula aLat aLon bLat bLon =
     (let R = 6371;
          dLat = ((bLat - aLat) * pi) / 180;
          dLon = ((bLon - aLon) * pi) / 180;
          lat1 = (aLat * pi) / 180;
          lat2 = (bLat * pi) / 180;
          sinDLat = sin (dLat / 2);
          sinDLon = sin (dLon / 2);
          h = sinDLat * sinDLat + cos lat1 * cos lat2 * sinDLon * sinDLon
      in 2 * R * arcsin (sqrt h))"

text \<open>
  The program evaluates the formula on doubles, and nothing checks the range of a
  coordinate. A product whose exact value has magnitude \<open>2 ^ 1024\<close> or more is an
  infinity; the sine and the cosine of an infinity are NaN, and NaN goes through every
  later operation, so the function returns NaN as soon as one of the four products by
  \<open>Math.PI\<close> overflows. On geographic coordinates (latitude from -90 to 90, longitude from
  -180 to 180) the result is taken to be the value of the formula: rounding is left
  out. For other coordinates the result depends on rounding (it is NaN when rounding
  takes \<open>h\<close> below 0 or above 1) and is taken from the environment.
\<close>

definition double_overflow :: "real \<Rightarrow> bool" where
  "double_overflow x = (2 ^ 1024 \<le> \<bar>x\<bar>)"

definition geographic :: "real \<Rightarrow> real \<Rightarrow> bool" where
  "geographic lat lon = (- 90 \<le> lat \<and> lat \<le> 90 \<and> - 180 \<le> lon \<and> lon \<le> 180)"

definition haversineKm :: "env \<Rightarrow> real \<Rightarrow> real \<Rightarrow> real \<Rightarrow> real \<Rightarrow> number" where
  "haversineKm env aLat aLon bLat bLon =
     (if double_overflow ((bLat - aLat) * pi) \<or> double_overflow ((bLon - aLon) * pi)
         \<or> double_overflow (aLat * pi) \<or> double_overflow (bLat * pi)
      then NaN
      else if geographic aLat aLon \<and> geographic bLat bLon
      then Finite (haversineFormula aLat aLon bLat bLon)
      else haversine_off_range env aLat aLon bLat bLon)"

section \<open>Volunteer selection\<close>

text \<open>The body of the \<open>devicesSnap.forEach\<close> callback (lines 165-182), one document at a time.\<close>

definition volunteerEntry :: "env \<Rightarrow> real \<Rightarrow> real \<Rightarrow> device \<Rightarrow> volunteer" where
  "volunteerEntry env lat lon d =
     \<lparr> v_userId = userId d,
       v_fcmToken = (case fcmToken d of Some t \<Rightarrow> t | None \<Rightarrow> []),
       distanceKm =
         (case (d_latitude d, d_longitude d) of
            (Some dlat, Some dlon) \<Rightarrow> Some (haversineKm env lat lon dlat dlon)
          | _ \<Rightarrow> None) \<rparr>"

fun collectVolunteers :: "env \<Rightarrow> real \<Rightarrow> real \<Rightarrow> real \<Rightarrow> device list \<Rightarrow> volunteer list" where
  "collectVolunteers env now lat lon [] = []"
| "collectVolunteers env now lat lon (d # ds) =
     (let lastSeen = (case lastSeenAt d of Some t \<Rightarrow> t | None \<Rightarrow> 0);
          maxAgeMs = 10 * 60 * 1000
      in if \<not> truthy_string (fcmToken d) then collectVolunteers env now lat lon ds
         else if now - lastSeen > maxAgeMs then collectVolunteers env now lat lon ds
         else volunteerEntry env lat lon d # collectVolunteers env now lat lon ds)"

text \<open>The subtraction of two numbers: NaN as soon as one of them is.\<close>

fun js_minus :: "number \<Rightarrow> number \<Rightarrow> number" where
  "js_minus (Finite x) (Finite y) = Finite (x - y)"
| "js_minus x y = NaN"

text \<open>
  The comparator passed to \<open>volunteers.sort\<close> (lines 184-189). A distance that is NaN is
  not \<open>null\<close>, so it reaches the subtraction and the comparator returns NaN.
\<close>

definition compareDistance :: "volunteer \<Rightarrow> volunteer \<Rightarrow> number" where
  "compareDistance a b =
     (if distanceKm a = None \<and> distanceKm b = None then Finite 0
      else if distanceKm a = None then Finite 1
      else if distanceKm b = None then Finite (- 1)
      else js_minus (the (distanceKm a)) (the (distanceKm b)))"

text \<open>
  \<open>Array.prototype.sort\<close> is a built-in. The language standard reads a comparator result
  that is NaN as 0, requires the sort to be stable and leaves the algorithm open. It is
  modelled by a stable insertion sort driven by the comparator: an element goes in front
  of the first element it does not compare greater than. When no distance is NaN every
  stable sort returns the same list for the comparator above; when one is, the
  comparator is not an order and the standard leaves the result to the implementation.
\<close>

fun sortCompare :: "number \<Rightarrow> real" where
  "sortCompare NaN = 0"
| "sortCompare (Finite v) = v"

fun sort_insert :: "('a \<Rightarrow> 'a \<Rightarrow> number) \<Rightarrow> 'a \<Rightarrow> 'a list \<Rightarrow> 'a list" where
  "sort_insert cmp x [] = [x]"
| "sort_insert cmp x (y # ys) =
     (if sortCompare (cmp x y) \<le> 0 then x # y # ys else y # sort_insert cmp x ys)"

fun Array_sort :: "('a \<Rightarrow> 'a \<Rightarrow> number) \<Rightarrow> 'a list \<Rightarrow> 'a list" where
  "Array_sort cmp [] = []"
| "Array_sort cmp (x # xs) = sort_insert cmp x (Array_sort cmp xs)"

text \<open>\<open>volunteers.sort(...)\<close> followed by \<open>slice(0, 10)\<close> (lines 184-191).\<close>

definition topVolunteers :: "volunteer list \<Rightarrow> volunteer list" where
  "topVolunteers volunteers = take 10 (Array_sort compareDistance volunteers)"

definition selectVolunteers :: "env \<Rightarrow> real \<Rightarrow> real \<Rightarrow> real \<Rightarrow> device list \<Rightarrow> volunteer list" where
  "selectVolunteers env now lat lon snap =
     topVolunteers (collectVolunteers env now lat lon snap)"

section \<open>Report: POST /api/emergencies\<close>

definition deriveEmergencyId :: "env \<Rightarrow> jsval \<Rightarrow> real" where
  "deriveEmergencyId env timestamp =
     (case js_Number env timestamp of
        Finite t \<Rightarrow> if t \<noteq> 0 \<and> t > 0 then t else Date_now env 133
      | NaN \<Rightarrow> Date_now env 133)"

definition emergencyDoc :: "env \<Rightarrow> (string \<rightharpoonup> jsval) option \<Rightarrow> emergency" where
  "emergencyDoc env body =
     (let req_status = field body ''status''
      in \<lparr> e_id = deriveEmergencyId env (field body ''timestamp''),
           elderlyId = js_Number env (field body ''elderly_id''),
           latitude = number_value (field body ''latitude''),
           longitude = number_value (field body ''longitude''),
           status = js_String env (if truthy req_status then req_status else JStr ''active''),
           volunteerId = None,
           createdAt = Date_now env 134,
           updatedAt = Date_now env 134,
           acceptedAt = None \<rparr>)"

definition createdAudit :: "env \<Rightarrow> (string \<rightharpoonup> jsval) option \<Rightarrow> audit" where
  "createdAudit env body =
     \<lparr> a_emergencyId = deriveEmergencyId env (field body ''timestamp''),
       action = ''created'',
       actorRole = ''elderly'',
       actorUserId = Some (js_Number env (field body ''elderly_id'')),
       notifiedVolunteerUserIds = None,
       a_createdAt = Date_now env 134 \<rparr>"

text \<open>The query of lines 157-162 on the devices collection.\<close>

definition volunteerDevices :: "world \<Rightarrow> device list" where
  "volunteerDevices w =
     take 200 (filter (\<lambda>d. role d = ''volunteer'' \<and> isAvailable d) (map snd (devices w)))"

definition newEmergencyData :: "env \<Rightarrow> (string \<rightharpoonup> jsval) option \<Rightarrow> (string \<times> string) list" where
  "newEmergencyData env body =
     [(''type'', ''emergency_new''),
      (''emergency_id'', NumberToString env (Finite (deriveEmergencyId env (field body ''timestamp'')))),
      (''elderly_id'', js_String env (field body ''elderly_id'')),
      (''latitude'', js_String env (field body ''latitude'')),
      (''longitude'', js_String env (field body ''longitude''))]"

definition pushedAudit :: "env \<Rightarrow> (string \<rightharpoonup> jsval) option \<Rightarrow> volunteer list \<Rightarrow> audit" where
  "pushedAudit env body top10 =
     \<lparr> a_emergencyId = deriveEmergencyId env (field body ''timestamp''),
       action = ''pushed_to_volunteers'',
       actorRole = ''system'',
       actorUserId = None,
       notifiedVolunteerUserIds = Some (map the (filter (\<lambda>x. x \<noteq> None) (map v_userId top10))),
       a_createdAt = Date_now env 212 \<rparr>"

text \<open>Lines 157-216: the selection of volunteers, the push and its audit entry.\<close>

definition notifyVolunteers ::
  "env \<Rightarrow> (string \<rightharpoonup> jsval) option \<Rightarrow> world \<Rightarrow> world \<times> response" where
  "notifyVolunteers env body w =
     attempt env DevicesQuery w (\<lambda>w1.
       let emergencyId = deriveEmergencyId env (field body ''timestamp'');
           top10 = selectVolunteers env (Date_now env 134)
                   (number_value (field body ''latitude''))
                   (number_value (field body ''longitude'')) (volunteerDevices w1);
           tokens = filter (\<lambda>t. t \<noteq> []) (map v_fcmToken top10)
       in if tokens = [] then (w1, Created emergencyId)
          else attempt env (SendEachForMulticast tokens (newEmergencyData env body)) w1 (\<lambda>w2.
                 attempt env (AuditAdd (pushedAudit env body top10)) w2 (\<lambda>w3.
                   (w3\<lparr>audit_logs := audit_logs w3 @ [pushedAudit env body top10]\<rparr>,
                    Created emergencyId))))"

definition post_emergencies ::
  "env \<Rightarrow> (string \<rightharpoonup> jsval) option \<Rightarrow> world \<Rightarrow> world \<times> response" where
  "post_emergencies env body w =
     (if rejects env InitFirebase then (w, ServerError)
      else if \<not> truthy (field body ''elderly_id'')
              \<or> \<not> typeof_number (field body ''latitude'')
              \<or> \<not> typeof_number (field body ''longitude'')
      then (w, ValidationError ''elderly_id, latitude, longitude are required'')
      else
        let emergencyId = deriveEmergencyId env (field body ''timestamp'')
        in attempt env (EmergencySet emergencyId (emergencyDoc env body)) w (\<lambda>w1.
             attempt env (AuditAdd (createdAudit env body))
               (w1\<lparr>emergencies := AList.update emergencyId (emergencyDoc env body) (emergencies w1)\<rparr>)
               (\<lambda>w2. notifyVolunteers env body
                        (w2\<lparr>audit_logs := audit_logs w2 @ [createdAudit env body]\<rparr>))))"

section \<open>Accept and SetStatus: PUT /api/emergencies/:id\<close>

datatype tx_error = NOT_FOUND | ALREADY_TAKEN

text \<open>
  The function passed to \<open>db.runTransaction\<close> (lines 282-300). Firestore runs it in
  isolation, so it is one function on the collection.
\<close>

definition acceptTransaction ::
  "env \<Rightarrow> real \<Rightarrow> jsval \<Rightarrow> (real \<times> emergency) list \<Rightarrow> tx_error + (real \<times> emergency) list" where
  "acceptTransaction env emergencyId volunteer_id store =
     (case map_of store emergencyId of
        None \<Rightarrow> Inl NOT_FOUND
      | Some current \<Rightarrow>
          if status current \<noteq> ''active'' then Inl ALREADY_TAKEN
          else Inr (AList.update emergencyId
                 (current\<lparr> status := ''accepted'',
                           volunteerId := Some (js_Number env volunteer_id),
                           acceptedAt := Some (Date_now env 297),
                           updatedAt := Date_now env 298 \<rparr>) store))"

definition acceptedAudit :: "env \<Rightarrow> real \<Rightarrow> jsval \<Rightarrow> audit" where
  "acceptedAudit env emergencyId volunteer_id =
     \<lparr> a_emergencyId = emergencyId,
       action = ''accepted'',
       actorRole = ''volunteer'',
       actorUserId = Some (js_Number env volunteer_id),
       notifiedVolunteerUserIds = None,
       a_createdAt = Date_now env 316 \<rparr>"

definition acceptedData :: "env \<Rightarrow> real \<Rightarrow> jsval \<Rightarrow> (string \<times> string) list" where
  "acceptedData env emergencyId volunteer_id =
     [(''type'', ''emergency_accepted''),
      (''emergency_id'', NumberToString env (Finite emergencyId)),
      (''volunteer_id'', js_String env volunteer_id)]"

text \<open>Lines 311-335: what follows a committed transaction.\<close>

definition notifyElderly :: "env \<Rightarrow> real \<Rightarrow> jsval \<Rightarrow> world \<Rightarrow> world \<times> response" where
  "notifyElderly env emergencyId volunteer_id w =
     attempt env (AuditAdd (acceptedAudit env emergencyId volunteer_id)) w (\<lambda>w1.
       attempt env (EmergencyGet emergencyId)
         (w1\<lparr>audit_logs := audit_logs w1 @ [acceptedAudit env emergencyId volunteer_id]\<rparr>)
         (\<lambda>w2.
           case map_of (emergencies w2) emergencyId of
             None \<Rightarrow> (w2, OkResponse)
           | Some emergency \<Rightarrow>
               let docId = ''elderly_'' @ NumberToString env (elderlyId emergency)
               in attempt env (DeviceGet docId) w2 (\<lambda>w3.
                    case (case map_of (devices w3) docId of
                            Some elderlyDevice \<Rightarrow> fcmToken elderlyDevice
                          | None \<Rightarrow> None) of
                      None \<Rightarrow> (w3, OkResponse)
                    | Some elderlyToken \<Rightarrow>
                        if elderlyToken = [] then (w3, OkResponse)
                        else attempt env
                               (Send elderlyToken (acceptedData env emergencyId volunteer_id)) w3
                               (\<lambda>w4. (w4, OkResponse)))))"

text \<open>Lines 276-336: the accept path.\<close>

definition acceptEmergency :: "env \<Rightarrow> real \<Rightarrow> jsval \<Rightarrow> world \<Rightarrow> world \<times> response" where
  "acceptEmergency env emergencyId volunteer_id w =
     (if \<not> truthy volunteer_id
      then (w, ValidationError ''volunteer_id is required for accepted'')
      else attempt env (RunTransaction emergencyId) w (\<lambda>w1.
             case acceptTransaction env emergencyId volunteer_id (emergencies w1) of
               Inl NOT_FOUND \<Rightarrow> (w1, NotFound)
             | Inl ALREADY_TAKEN \<Rightarrow> (w1, Conflict)
             | Inr store \<Rightarrow>
                 notifyElderly env emergencyId volunteer_id (w1\<lparr>emergencies := store\<rparr>)))"

definition statusPatch :: "env \<Rightarrow> jsval \<Rightarrow> jsval \<Rightarrow> patch" where
  "statusPatch env req_status volunteer_id =
     \<lparr> p_status = js_String env req_status,
       p_updatedAt = Date_now env 340,
       p_volunteerId =
         (if volunteer_id \<noteq> JUndefined
          then Some (if volunteer_id = JNull then None else Some (js_Number env volunteer_id))
          else None) \<rparr>"

definition applyPatch :: "patch \<Rightarrow> emergency \<Rightarrow> emergency" where
  "applyPatch p e =
     (case p_volunteerId p of
        None \<Rightarrow> e\<lparr>status := p_status p, updatedAt := p_updatedAt p\<rparr>
      | Some v \<Rightarrow> e\<lparr>status := p_status p, updatedAt := p_updatedAt p, volunteerId := v\<rparr>)"

definition statusAudit :: "env \<Rightarrow> real \<Rightarrow> jsval \<Rightarrow> audit" where
  "statusAudit env emergencyId req_status =
     \<lparr> a_emergencyId = emergencyId,
       action = ''status_'' @ js_String env req_status,
       actorRole = ''system'',
       actorUserId = None,
       notifiedVolunteerUserIds = None,
       a_createdAt = Date_now env 359 \<rparr>"

text \<open>Lines 338-362: the generic status path.\<close>

definition setStatus :: "env \<Rightarrow> real \<Rightarrow> jsval \<Rightarrow> jsval \<Rightarrow> world \<Rightarrow> world \<times> response" where
  "setStatus env emergencyId req_status volunteer_id w =
     attempt env (EmergencyGet emergencyId) w (\<lambda>w1.
       case map_of (emergencies w1) emergencyId of
         None \<Rightarrow> (w1, NotFound)
       | Some e \<Rightarrow>
           attempt env (EmergencyUpdate emergencyId (statusPatch env req_status volunteer_id)) w1 (\<lambda>w2.
             attempt env (AuditAdd (statusAudit env emergencyId req_status))
               (w2\<lparr>emergencies :=
                      AList.update emergencyId
                        (applyPatch (statusPatch env req_status volunteer_id) e) (emergencies w2)\<rparr>)
               (\<lambda>w3. (w3\<lparr>audit_logs := audit_logs w3 @ [statusAudit env emergencyId req_status]\<rparr>,
                       OkResponse))))"

definition put_emergency ::
  "env \<Rightarrow> string \<Rightarrow> (string \<rightharpoonup> jsval) option \<Rightarrow> world \<Rightarrow> world \<times> response" where
  "put_emergency env id_param body w =
     (if rejects env InitFirebase then (w, ServerError)
      else case StringToNumber env id_param of
        NaN \<Rightarrow> (w, ValidationError ''Invalid emergency id'')
      | Finite emergencyId \<Rightarrow>
          if emergencyId = 0 then (w, ValidationError ''Invalid emergency id'')
          else if \<not> truthy (field body ''status'')
          then (w, ValidationError ''status is required'')
          else if js_String env (field body ''status'') = ''accepted''
          then acceptEmergency env emergencyId (field body ''volunteer_id'') w
          else setStatus env emergencyId (field body ''status'') (field body ''volunteer_id'') w)"

section \<open>RetentionSweep: POST /api/admin/cleanup\<close>

definition retentionDays :: "env \<Rightarrow> string option \<Rightarrow> number" where
  "retentionDays env days_query =
     (case days_query of
        Some q \<Rightarrow> if q \<noteq> [] then StringToNumber env q
                  else (case RETENTION_DAYS env of
                          Some r \<Rightarrow> if r \<noteq> [] then StringToNumber env r else Finite 30
                        | None \<Rightarrow> Finite 30)
      | None \<Rightarrow> (case RETENTION_DAYS env of
                  Some r \<Rightarrow> if r \<noteq> [] then StringToNumber env r else Finite 30
                | None \<Rightarrow> Finite 30))"

definition cutoffOf :: "env \<Rightarrow> number \<Rightarrow> number" where
  "cutoffOf env days =
     (case days of
        NaN \<Rightarrow> NaN
      | Finite n \<Rightarrow> Finite (Date_now env 379 - n * 24 * 60 * 60 * 1000))"

text \<open>
  The query of line 381: the documents created before the cutoff, oldest first, at most
  200 of them.
\<close>

definition expiredEmergencies :: "real \<Rightarrow> world \<Rightarrow> (real \<times> emergency) list" where
  "expiredEmergencies cutoff w =
     take 200 (sort_key (\<lambda>(k, e). createdAt e)
                 (filter (\<lambda>(k, e). createdAt e < cutoff) (emergencies w)))"

text \<open>
  Lines 368-397. Firestore refuses an inequality filter on NaN, so with a cutoff that is
  NaN the query throws and the handler's \<open>catch\<close> answers 500.
\<close>

definition post_admin_cleanup ::
  "env \<Rightarrow> string option \<Rightarrow> string option \<Rightarrow> world \<Rightarrow> world \<times> response" where
  "post_admin_cleanup env token days_query w =
     (if rejects env InitFirebase then (w, ServerError)
      else if \<not> truthy_string (ADMIN_TOKEN env) \<or> token \<noteq> ADMIN_TOKEN env
      then (w, Forbidden)
      else
        let days = retentionDays env days_query
        in case cutoffOf env days of
             NaN \<Rightarrow> (w\<lparr>journal := journal w @ [EmergenciesQuery NaN]\<rparr>, ServerError)
           | Finite cutoff \<Rightarrow>
               attempt env (EmergenciesQuery (Finite cutoff)) w (\<lambda>w1.
                 let snap = expiredEmergencies cutoff w1;
                     count = length snap
                 in if count \<noteq> 0
                    then attempt env (BatchCommit (map fst snap)) w1 (\<lambda>w2.
                           (w2\<lparr>emergencies :=
                                  filter (\<lambda>(k, e). k \<notin> set (map fst snap)) (emergencies w2)\<rparr>,
                            CleanupDone count days))
                    else (w1, CleanupDone count days)))"

section \<open>Requests and executions\<close>

datatype request =
    PostEmergencies "(string \<rightharpoonup> jsval) option"
  | PutEmergency string "(string \<rightharpoonup> jsval) option"
  | PostAdminCleanup "string option" "string option"

fun handle :: "env \<Rightarrow> request \<Rightarrow> world \<Rightarrow> world \<times> response" where
  "handle env (PostEmergencies body) w = post_emergencies env body w"
| "handle env (PutEmergency id_param body) w = put_emergency env id_param body w"
| "handle env (PostAdminCleanup token days_query) w = post_admin_cleanup env token days_query w"

text \<open>Requests served one after the other, each with its own environment.\<close>

fun run :: "(env \<times> request) list \<Rightarrow> world \<Rightarrow> world" where
  "run [] w = w"
| "run ((env, r) # rs) w = run rs (fst (handle env r w))"

section \<open>The selection rules in the specification's words\<close>

text \<open>
  A candidate is kept when it has a push token and its last heartbeat is at most ten
  minutes old at selection time; a candidate without a heartbeat counts as last seen at
  time 0, the oldest time there is.
\<close>

definition has_push_token :: "device \<Rightarrow> bool" where
  "has_push_token d = (case fcmToken d of None \<Rightarrow> False | Some t \<Rightarrow> t \<noteq> [])"

definition heartbeat_age :: "real \<Rightarrow> device \<Rightarrow> real" where
  "heartbeat_age now d = now - (case lastSeenAt d of Some t \<Rightarrow> t | None \<Rightarrow> 0)"

definition eligible :: "real \<Rightarrow> device \<Rightarrow> bool" where
  "eligible now d = (has_push_token d \<and> heartbeat_age now d \<le> 600000)"




section \<open>Concrete environments and worlds for the examples\<close>

text \<open>
  A string-to-number conversion that agrees with \<open>Number\<close> on strings of decimal digits,
  and a number-to-string conversion that agrees with \<open>String\<close> on the few numbers the
  examples print.
\<close>

definition digit_value :: "char \<Rightarrow> nat option" where
  "digit_value = map_of (zip ''0123456789'' [0, 1, 2, 3, 4, 5, 6, 7, 8, 9])"

fun decimal_digits :: "nat \<Rightarrow> string \<Rightarrow> nat option" where
  "decimal_digits acc [] = Some acc"
| "decimal_digits acc (c # cs) =
     (case digit_value c of
        None \<Rightarrow> None
      | Some d \<Rightarrow> decimal_digits (10 * acc + d) cs)"

definition sample_StringToNumber :: "string \<Rightarrow> number" where
  "sample_StringToNumber s =
     (case decimal_digits 0 s of None \<Rightarrow> NaN | Some n \<Rightarrow> Finite (real n))"

definition sample_NumberToString :: "number \<Rightarrow> string" where
  "sample_NumberToString n =
     (if n = Finite 1 then ''1'' else if n = Finite 2 then ''2''
      else if n = Finite 5 then ''5'' else if n = Finite 7 then ''7''
      else if n = Finite 9 then ''9'' else if n = Finite 10 then ''10''
      else if n = Finite 20 then ''20'' else ''NaN'')"

definition sample_env :: env where
  "sample_env =
     \<lparr> StringToNumber = sample_StringToNumber,
       NumberToString = sample_NumberToString,
       Date_now = (\<lambda>line. 1700000000000),
       rejects = (\<lambda>c. False),
       ADMIN_TOKEN = Some ''s3cret'',
       RETENTION_DAYS = None,
       haversine_off_range = (\<lambda>aLat aLon bLat bLon. NaN) \<rparr>"

definition empty_world :: world where
  "empty_world = \<lparr> emergencies = [], devices = [], audit_logs = [], journal = [] \<rparr>"

definition fresh_volunteer :: device where
  "fresh_volunteer =
     \<lparr> userId = Some (Finite 7), role = ''volunteer'', fcmToken = Some ''tokA'',
       isAvailable = True, d_latitude = None, d_longitude = None,
       lastSeenAt = Some 1699999999000 \<rparr>"

definition stale_volunteer :: device where
  "stale_volunteer =
     \<lparr> userId = Some (Finite 9), role = ''volunteer'', fcmToken = Some ''tokB'',
       isAvailable = True, d_latitude = None, d_longitude = None,
       lastSeenAt = Some 1699999000000 \<rparr>"

definition tokenless_volunteer :: device where
  "tokenless_volunteer =
     \<lparr> userId = Some (Finite 2), role = ''volunteer'', fcmToken = None,
       isAvailable = True, d_latitude = None, d_longitude = None,
       lastSeenAt = Some 1699999999000 \<rparr>"




text \<open>Entries of a candidate list: two at the same distance, one nearer, one without a location.\<close>

definition near_volunteer :: volunteer where
  "near_volunteer = \<lparr> v_userId = Some (Finite 1), v_fcmToken = ''t1'', distanceKm = Some (Finite 2) \<rparr>"

definition far_volunteer :: volunteer where
  "far_volunteer = \<lparr> v_userId = Some (Finite 2), v_fcmToken = ''t2'', distanceKm = Some (Finite 5) \<rparr>"

definition other_far_volunteer :: volunteer where
  "other_far_volunteer = \<lparr> v_userId = Some (Finite 3), v_fcmToken = ''t3'', distanceKm = Some (Finite 5) \<rparr>"

definition unlocated_volunteer :: volunteer where
  "unlocated_volunteer = \<lparr> v_userId = Some (Finite 4), v_fcmToken = ''t4'', distanceKm = None \<rparr>"

section \<open>Notions used to state the properties of the handlers\<close>

text \<open>The validation of line 129 passes.\<close>

definition valid_report :: "(string \<rightharpoonup> jsval) option \<Rightarrow> bool" where
  "valid_report body =
     (truthy (field body ''elderly_id'') \<and> typeof_number (field body ''latitude'')
      \<and> typeof_number (field body ''longitude''))"

text \<open>The collaborator calls issued between two worlds, in order.\<close>

definition issued :: "world \<Rightarrow> world \<Rightarrow> call list" where
  "issued w w' = drop (length (journal w)) (journal w')"

text \<open>The token list of line 192, as the report handler computes it in a world.\<close>

definition dispatchTokens :: "env \<Rightarrow> (string \<rightharpoonup> jsval) option \<Rightarrow> world \<Rightarrow> string list" where
  "dispatchTokens env body w =
     filter (\<lambda>t. t \<noteq> [])
       (map v_fcmToken
          (selectVolunteers env (Date_now env 134) (number_value (field body ''latitude''))
             (number_value (field body ''longitude'')) (volunteerDevices w)))"

text \<open>An environment in which the multicast push rejects and every other call resolves.\<close>

definition dispatch_fails_env :: env where
  "dispatch_fails_env =
     sample_env\<lparr>rejects := (\<lambda>c. case c of SendEachForMulticast tokens payload \<Rightarrow> True | _ \<Rightarrow> False)\<rparr>"

definition one_volunteer_world :: world where
  "one_volunteer_world = empty_world\<lparr>devices := [(''volunteer_7'', fresh_volunteer)]\<rparr>"

definition report_body :: "(string \<rightharpoonup> jsval) option" where
  "report_body =
     Some [''elderly_id'' \<mapsto> JNum 5, ''latitude'' \<mapsto> JNum 10, ''longitude'' \<mapsto> JNum 20,
           ''timestamp'' \<mapsto> JNum 1]"

text \<open>The status and the volunteer of the record stored under an id, if there is one.\<close>

definition status_at :: "world \<Rightarrow> real \<Rightarrow> string option" where
  "status_at w k = map_option status (map_of (emergencies w) k)"

definition volunteer_at :: "world \<Rightarrow> real \<Rightarrow> number option option" where
  "volunteer_at w k = map_option volunteerId (map_of (emergencies w) k)"

text \<open>No collaborator call rejects.\<close>

definition reliable :: "env \<Rightarrow> bool" where
  "reliable env = (\<forall>c. \<not> rejects env c)"

text \<open>
  A request is an Accept call that takes the record under \<open>k\<close> from \<open>active\<close> to
  \<open>accepted\<close> when it is served in world \<open>w\<close>.
\<close>

definition accept_transition :: "env \<Rightarrow> request \<Rightarrow> world \<Rightarrow> real \<Rightarrow> bool" where
  "accept_transition env r w k =
     (case r of
        PutEmergency id_param body \<Rightarrow>
          StringToNumber env id_param = Finite k
          \<and> js_String env (field body ''status'') = ''accepted''
          \<and> status_at w k = Some ''active''
          \<and> status_at (fst (handle env r w)) k = Some ''accepted''
      | _ \<Rightarrow> False)"

text \<open>The number of such transitions of the record under \<open>k\<close> while a list of requests is served.\<close>

fun accept_wins :: "real \<Rightarrow> (env \<times> request) list \<Rightarrow> world \<Rightarrow> nat" where
  "accept_wins k [] w = 0"
| "accept_wins k ((env, r) # rs) w =
     (if accept_transition env r w k then 1 else 0) + accept_wins k rs (fst (handle env r w))"

fun responses :: "(env \<times> request) list \<Rightarrow> world \<Rightarrow> response list" where
  "responses [] w = []"
| "responses ((env, r) # rs) w = snd (handle env r w) # responses rs (fst (handle env r w))"

text \<open>
  A request can put the record under \<open>k\<close> back to \<open>active\<close>: a report whose derived id is
  \<open>k\<close>, or a generic status update of \<open>k\<close> to the status \<open>active\<close>.
\<close>

definition reactivates :: "env \<Rightarrow> request \<Rightarrow> real \<Rightarrow> bool" where
  "reactivates env r k =
     (case r of
        PostEmergencies body \<Rightarrow> deriveEmergencyId env (field body ''timestamp'') = k
      | PutEmergency id_param body \<Rightarrow>
          StringToNumber env id_param = Finite k
          \<and> js_String env (field body ''status'') = ''active''
      | PostAdminCleanup token days_query \<Rightarrow> False)"

text \<open>
  The volunteer of a record is set exactly when the record has been accepted
  (\<open>acceptedAt\<close> is written by the accept transaction and by nothing else), and a record
  whose status is \<open>accepted\<close> has a volunteer.
\<close>

definition volunteer_iff_accepted :: "emergency \<Rightarrow> bool" where
  "volunteer_iff_accepted e =
     ((volunteerId e \<noteq> None \<longleftrightarrow> acceptedAt e \<noteq> None)
      \<and> (status e = ''accepted'' \<longrightarrow> volunteerId e \<noteq> None))"

text \<open>
  A report that does not ask for the status \<open>accepted\<close>, an Accept call, a generic status
  update that carries no \<open>volunteer_id\<close>, or a cleanup.
\<close>

definition plain_request :: "env \<Rightarrow> request \<Rightarrow> bool" where
  "plain_request env r =
     (case r of
        PostEmergencies body \<Rightarrow> status (emergencyDoc env body) \<noteq> ''accepted''
      | PutEmergency id_param body \<Rightarrow>
          js_String env (field body ''status'') = ''accepted''
          \<or> field body ''volunteer_id'' = JUndefined
      | PostAdminCleanup token days_query \<Rightarrow> True)"

text \<open>Worlds and requests of the examples.\<close>

definition accepted_record :: emergency where
  "accepted_record =
     \<lparr> e_id = 1, elderlyId = Finite 5, latitude = 10, longitude = 20, status = ''accepted'',
       volunteerId = Some (Finite 7), createdAt = 1699990000000, updatedAt = 1699990050000,
       acceptedAt = Some 1699990050000 \<rparr>"

definition accepted_world :: world where
  "accepted_world = empty_world\<lparr>emergencies := [(1, accepted_record)]\<rparr>"

definition active_world :: world where
  "active_world =
     empty_world\<lparr>emergencies :=
       [(1, accepted_record\<lparr>status := ''active'', volunteerId := None, acceptedAt := None\<rparr>)]\<rparr>"

definition colliding_body :: "(string \<rightharpoonup> jsval) option" where
  "colliding_body =
     Some [''elderly_id'' \<mapsto> JNum 2, ''latitude'' \<mapsto> JNum 1, ''longitude'' \<mapsto> JNum 2,
           ''timestamp'' \<mapsto> JNum 1]"

definition accept_by :: "real \<Rightarrow> request" where
  "accept_by v = PutEmergency ''1'' (Some [''status'' \<mapsto> JStr ''accepted'', ''volunteer_id'' \<mapsto> JNum v])"

definition set_status :: "string \<Rightarrow> request" where
  "set_status s = PutEmergency ''1'' (Some [''status'' \<mapsto> JStr s])"

definition set_status_and_volunteer :: "string \<Rightarrow> real \<Rightarrow> request" where
  "set_status_and_volunteer s v =
     PutEmergency ''1'' (Some [''status'' \<mapsto> JStr s, ''volunteer_id'' \<mapsto> JNum v])"

definition accepted_report_body :: "(string \<rightharpoonup> jsval) option" where
  "accepted_report_body =
     Some [''elderly_id'' \<mapsto> JNum 5, ''latitude'' \<mapsto> JNum 10, ''longitude'' \<mapsto> JNum 20,
           ''timestamp'' \<mapsto> JNum 1, ''status'' \<mapsto> JStr ''accepted'']"

section \<open>Properties of the geo distance\<close>

















section \<open>Properties of the volunteer selection\<close>

lemma collect_is_filter:
  "collectVolunteers env now lat lon snap =
     map (volunteerEntry env lat lon) (filter (eligible now) snap)"
  by (induction snap)
     (auto simp: eligible_def has_push_token_def heartbeat_age_def Let_def
           split: option.splits)











lemma set_sort_insert: "set (sort_insert cmp x ys) = insert x (set ys)"
  by (induction ys) auto


lemma set_Array_sort: "set (Array_sort cmp xs) = set xs"
  by (induction xs) (auto simp: set_sort_insert)










lemma top_subset: "set (topVolunteers vs) \<subseteq> set vs"
  unfolding topVolunteers_def using set_take_subset [of 10 "Array_sort compareDistance vs"]
  by (simp add: set_Array_sort)

lemma selected_are_eligible:
  assumes "v \<in> set (selectVolunteers env now lat lon snap)"
  shows "\<exists>d\<in>set snap. v = volunteerEntry env lat lon d \<and> has_push_token d
           \<and> heartbeat_age now d \<le> 600000"
proof -
  from assms have "v \<in> set (collectVolunteers env now lat lon snap)"
    using top_subset by (auto simp: selectVolunteers_def)
  then show ?thesis
    by (auto simp: collect_is_filter eligible_def)
qed

text \<open>
  C5. The loop that builds the candidate list keeps exactly the devices that have a push
  token and whose last heartbeat is at most 10 minutes (600000 ms) older than the
  selection time, a device without a heartbeat counting as last seen at time 0; so every
  entry the selector returns comes from a device with a token and a heartbeat within 10
  minutes, and whenever the clock is past 600000 a device without a heartbeat is left
  out.
\<close>

theorem selector_excludes_tokenless_and_stale:
  "collectVolunteers env now lat lon snap =
     map (volunteerEntry env lat lon) (filter (eligible now) snap)
   \<and> (\<forall>v\<in>set (selectVolunteers env now lat lon snap).
         \<exists>d\<in>set snap. v = volunteerEntry env lat lon d \<and> has_push_token d
                        \<and> heartbeat_age now d \<le> 600000)
   \<and> (\<forall>d. \<not> has_push_token d \<longrightarrow> collectVolunteers env now lat lon [d] = [])
   \<and> (\<forall>d. 600000 < heartbeat_age now d \<longrightarrow> collectVolunteers env now lat lon [d] = [])
   \<and> (\<forall>d. 600000 < now \<and> lastSeenAt d = None \<longrightarrow> collectVolunteers env now lat lon [d] = [])"
proof -
  have "\<forall>d. \<not> eligible now d \<longrightarrow> collectVolunteers env now lat lon [d] = []"
    by (simp add: collect_is_filter)
  then have "\<forall>d. \<not> has_push_token d \<longrightarrow> collectVolunteers env now lat lon [d] = []"
    and "\<forall>d. 600000 < heartbeat_age now d \<longrightarrow> collectVolunteers env now lat lon [d] = []"
    and "\<forall>d. 600000 < now \<and> lastSeenAt d = None \<longrightarrow> collectVolunteers env now lat lon [d] = []"
    by (auto simp: eligible_def heartbeat_age_def)
  then show ?thesis
    using collect_is_filter selected_are_eligible by blast
qed

theorem selector_excludes_tokenless_and_stale_witness:
  "selectVolunteers sample_env 1700000000000 10 20
       [tokenless_volunteer, stale_volunteer, fresh_volunteer]
     = [volunteerEntry sample_env 10 20 fresh_volunteer]
   \<and> has_push_token fresh_volunteer \<and> heartbeat_age 1700000000000 fresh_volunteer = 1000
   \<and> \<not> has_push_token tokenless_volunteer
   \<and> heartbeat_age 1700000000000 stale_volunteer = 1000000
   \<and> collectVolunteers sample_env 1700000000000 10 20 [tokenless_volunteer] = []
   \<and> collectVolunteers sample_env 1700000000000 10 20 [stale_volunteer] = []"
  using selector_excludes_tokenless_and_stale
          [of sample_env 1700000000000 10 20 "[tokenless_volunteer, stale_volunteer, fresh_volunteer]"]
  by (simp add: selectVolunteers_def topVolunteers_def eligible_def has_push_token_def
        heartbeat_age_def tokenless_volunteer_def stale_volunteer_def fresh_volunteer_def)










section \<open>Validation and the administrative guard\<close>

text \<open>
  C9. When the Firebase application initialises, a cleanup call is answered Forbidden
  whenever no administrative token is configured (the variable is unset or empty) or
  the token presented differs from the configured one; the world, and with it the
  emergencies collection, is left as it was and no collaborator call is issued.
\<close>

theorem cleanup_is_fail_closed:
  assumes "\<not> rejects env InitFirebase"
    and "\<not> truthy_string (ADMIN_TOKEN env) \<or> token \<noteq> ADMIN_TOKEN env"
  shows "post_admin_cleanup env token days_query w = (w, Forbidden)"
  using assms by (auto simp: post_admin_cleanup_def)

theorem cleanup_is_fail_closed_witness:
  "post_admin_cleanup (sample_env\<lparr>ADMIN_TOKEN := None\<rparr>) (Some ''anything'') None empty_world
     = (empty_world, Forbidden)
   \<and> post_admin_cleanup (sample_env\<lparr>ADMIN_TOKEN := Some []\<rparr>) (Some []) None empty_world
     = (empty_world, Forbidden)
   \<and> post_admin_cleanup sample_env (Some ''guess'') None empty_world = (empty_world, Forbidden)
   \<and> post_admin_cleanup sample_env None None empty_world = (empty_world, Forbidden)"
  using cleanup_is_fail_closed [of "sample_env\<lparr>ADMIN_TOKEN := None\<rparr>" "Some ''anything'' " None empty_world]
        cleanup_is_fail_closed [of "sample_env\<lparr>ADMIN_TOKEN := Some []\<rparr>" "Some []" None empty_world]
        cleanup_is_fail_closed [of sample_env "Some ''guess''" None empty_world]
        cleanup_is_fail_closed [of sample_env None None empty_world]
  by (simp add: sample_env_def)

text \<open>
  C10. When the Firebase application initialises, a report whose \<open>elderly_id\<close> is the
  number 0 is answered with the validation error and leaves the world untouched, and a
  request to accept whose \<open>volunteer_id\<close> is the number 0 is answered with a validation
  error and leaves the world untouched: nothing is written and no transaction is
  issued.
\<close>

theorem zero_ids_are_rejected:
  assumes "\<not> rejects env InitFirebase"
  shows "(field body ''elderly_id'' = JNum 0 \<longrightarrow>
            post_emergencies env body w =
              (w, ValidationError ''elderly_id, latitude, longitude are required''))
       \<and> (field body ''status'' = JStr ''accepted'' \<and> field body ''volunteer_id'' = JNum 0 \<longrightarrow>
            put_emergency env id_param body w =
              (w, ValidationError
                    (if truthy_number (StringToNumber env id_param)
                     then ''volunteer_id is required for accepted''
                     else ''Invalid emergency id'')))"
  using assms
  by (auto simp: post_emergencies_def put_emergency_def acceptEmergency_def js_String_def
           split: number.splits)

theorem zero_ids_are_rejected_witness:
  "field (Some [''elderly_id'' \<mapsto> JNum 0, ''latitude'' \<mapsto> JNum 10, ''longitude'' \<mapsto> JNum 20])
       ''elderly_id'' = JNum 0
   \<and> post_emergencies sample_env
        (Some [''elderly_id'' \<mapsto> JNum 0, ''latitude'' \<mapsto> JNum 10, ''longitude'' \<mapsto> JNum 20])
        empty_world
       = (empty_world, ValidationError ''elderly_id, latitude, longitude are required'')
   \<and> put_emergency sample_env ''5''
        (Some [''status'' \<mapsto> JStr ''accepted'', ''volunteer_id'' \<mapsto> JNum 0]) empty_world
       = (empty_world, ValidationError ''volunteer_id is required for accepted'')"
  using zero_ids_are_rejected
          [of sample_env
              "Some [''elderly_id'' \<mapsto> JNum 0, ''latitude'' \<mapsto> JNum 10, ''longitude'' \<mapsto> JNum 20]"
              empty_world]
        zero_ids_are_rejected
          [of sample_env "Some [''status'' \<mapsto> JStr ''accepted'', ''volunteer_id'' \<mapsto> JNum 0]"
              empty_world "''5''"]
  by (simp add: sample_env_def field_def sample_StringToNumber_def digit_value_def)

section \<open>What the handlers change\<close>

lemma map_of_update_same: "map_of (AList.update k v al) k = Some v"
  by (simp add: update_conv')

lemma map_of_update_other: "k' \<noteq> k \<Longrightarrow> map_of (AList.update k v al) k' = map_of al k'"
  by (simp add: update_conv')

lemma notifyElderly_emergencies [simp]:
  "emergencies (fst (notifyElderly env k v w)) = emergencies w"
  by (simp add: notifyElderly_def attempt_def Let_def split: option.splits)

lemma notifyElderly_response:
  "snd (notifyElderly env k v w) = OkResponse \<or> snd (notifyElderly env k v w) = ServerError"
  by (simp add: notifyElderly_def attempt_def Let_def split: option.splits)

lemma notifyElderly_not_error [simp]:
  "snd (notifyElderly env k v w) \<noteq> NotFound" "snd (notifyElderly env k v w) \<noteq> Conflict"
  using notifyElderly_response [of env k v w] by auto

lemma notifyVolunteers_emergencies [simp]:
  "emergencies (fst (notifyVolunteers env body w)) = emergencies w"
  by (simp add: notifyVolunteers_def attempt_def Let_def)

lemma volunteerDevices_frame [simp]:
  "volunteerDevices (w\<lparr>journal := j\<rparr>) = volunteerDevices w"
  "volunteerDevices (w\<lparr>emergencies := es\<rparr>) = volunteerDevices w"
  "volunteerDevices (w\<lparr>audit_logs := al\<rparr>) = volunteerDevices w"
  by (simp_all add: volunteerDevices_def)

lemma report_after_validation:
  assumes "\<not> rejects env InitFirebase" and "valid_report body"
  shows "post_emergencies env body w =
     attempt env (EmergencySet (deriveEmergencyId env (field body ''timestamp'')) (emergencyDoc env body)) w
       (\<lambda>w1. attempt env (AuditAdd (createdAudit env body))
               (w1\<lparr>emergencies :=
                      AList.update (deriveEmergencyId env (field body ''timestamp''))
                        (emergencyDoc env body) (emergencies w1)\<rparr>)
               (\<lambda>w2. notifyVolunteers env body
                        (w2\<lparr>audit_logs := audit_logs w2 @ [createdAudit env body]\<rparr>)))"
  using assms by (simp add: post_emergencies_def valid_report_def Let_def)

lemma attempt_emergencies:
  "emergencies (fst (attempt env c w k)) =
     (if rejects env c then emergencies w else emergencies (fst (k (w\<lparr>journal := journal w @ [c]\<rparr>))))"
  by (simp add: attempt_def Let_def)

lemma post_emergencies_store:
  "emergencies (fst (post_emergencies env body w)) =
     (if \<not> rejects env InitFirebase \<and> valid_report body
         \<and> \<not> rejects env (EmergencySet (deriveEmergencyId env (field body ''timestamp'')) (emergencyDoc env body))
      then AList.update (deriveEmergencyId env (field body ''timestamp'')) (emergencyDoc env body) (emergencies w)
      else emergencies w)"
  by (simp add: post_emergencies_def valid_report_def Let_def attempt_emergencies)

lemma acceptEmergency_store:
  "emergencies (fst (acceptEmergency env k v w)) =
     (if truthy v \<and> \<not> rejects env (RunTransaction k)
      then (case acceptTransaction env k v (emergencies w) of Inl e \<Rightarrow> emergencies w | Inr s \<Rightarrow> s)
      else emergencies w)"
  by (simp add: acceptEmergency_def attempt_emergencies split: sum.splits tx_error.splits)

lemma setStatus_store:
  "emergencies (fst (setStatus env k s v w)) =
     (if \<not> rejects env (EmergencyGet k) \<and> \<not> rejects env (EmergencyUpdate k (statusPatch env s v))
      then (case map_of (emergencies w) k of
              None \<Rightarrow> emergencies w
            | Some e \<Rightarrow> AList.update k (applyPatch (statusPatch env s v) e) (emergencies w))
      else emergencies w)"
  by (simp add: setStatus_def attempt_emergencies split: option.splits)

lemma cleanup_store:
  "\<exists>S. emergencies (fst (post_admin_cleanup env t d w)) = filter (\<lambda>(k, e). k \<notin> S) (emergencies w)"
proof -
  have keep: "emergencies w = filter (\<lambda>(k, e). k \<notin> {}) (emergencies w)" by simp
  show ?thesis
    unfolding post_admin_cleanup_def Let_def attempt_def
    by (auto intro: exI [of _ "{}"] split: number.splits)
qed

lemma map_of_filter_keys:
  "map_of (filter (\<lambda>(k, e). k \<notin> S) al) k = (if k \<in> S then None else map_of al k)"
  by (induction al) auto


lemma put_emergency_store:
  "emergencies (fst (put_emergency env p body w)) =
     (if rejects env InitFirebase then emergencies w
      else case StringToNumber env p of
        NaN \<Rightarrow> emergencies w
      | Finite k \<Rightarrow>
          if k = 0 \<or> \<not> truthy (field body ''status'') then emergencies w
          else if js_String env (field body ''status'') = ''accepted''
          then emergencies (fst (acceptEmergency env k (field body ''volunteer_id'') w))
          else emergencies (fst (setStatus env k (field body ''status'') (field body ''volunteer_id'') w)))"
  by (simp add: put_emergency_def split: number.splits)

lemma status_at_update:
  "status_at (w\<lparr>emergencies := AList.update k' e (emergencies w)\<rparr>) k =
     (if k = k' then Some (status e) else status_at w k)"
  by (simp add: status_at_def update_conv')

lemma status_at_cong: "emergencies w' = emergencies w \<Longrightarrow> status_at w' k = status_at w k"
  by (simp add: status_at_def)

lemma status_at_store:
  "emergencies w' = AList.update k' e (emergencies w) \<Longrightarrow>
   status_at w' k = (if k = k' then Some (status e) else status_at w k)"
  by (simp add: status_at_def update_conv')

lemma inactive_post:
  assumes "status_at w k \<noteq> Some ''active''" "deriveEmergencyId env (field body ''timestamp'') \<noteq> k"
  shows "status_at (fst (post_emergencies env body w)) k \<noteq> Some ''active''"
  using assms
  by (simp add: status_at_def post_emergencies_store update_conv')

lemma inactive_accept:
  assumes "status_at w k \<noteq> Some ''active''"
  shows "status_at (fst (acceptEmergency env k' v w)) k \<noteq> Some ''active''"
  using assms
  by (auto simp: status_at_def acceptEmergency_store acceptTransaction_def update_conv'
           split: option.splits)

lemma inactive_setStatus:
  assumes "status_at w k \<noteq> Some ''active''" "\<not> (k' = k \<and> js_String env s = ''active'')"
  shows "status_at (fst (setStatus env k' s v w)) k \<noteq> Some ''active''"
  using assms
  by (auto simp: status_at_def setStatus_store update_conv' applyPatch_def statusPatch_def
           split: option.splits)

lemma inactive_cleanup:
  assumes "status_at w k \<noteq> Some ''active''"
  shows "status_at (fst (post_admin_cleanup env t d w)) k \<noteq> Some ''active''"
proof -
  obtain S where "emergencies (fst (post_admin_cleanup env t d w)) = filter (\<lambda>(k, e). k \<notin> S) (emergencies w)"
    using cleanup_store by blast
  with assms show ?thesis
    by (simp add: status_at_def map_of_filter_keys)
qed

lemma inactive_step:
  assumes "status_at w k \<noteq> Some ''active''" "\<not> reactivates env r k"
  shows "status_at (fst (handle env r w)) k \<noteq> Some ''active''"
proof (cases r)
  case (PostEmergencies body)
  with assms show ?thesis by (simp add: reactivates_def inactive_post)
next
  case (PutEmergency p body)
  have same: "status_at (fst (put_emergency env p body w)) k = status_at w k"
    if "emergencies (fst (put_emergency env p body w)) = emergencies w"
    using that by (rule status_at_cong)
  show ?thesis
  proof (cases "StringToNumber env p")
    case NaN
    with PutEmergency assms show ?thesis
      by (simp add: put_emergency_def)
  next
    case (Finite k')
    with PutEmergency assms show ?thesis
      using inactive_accept [of w k env k' "field body ''volunteer_id''"]
        inactive_setStatus [of w k k' env "field body ''status''" "field body ''volunteer_id''"]
      by (auto simp: put_emergency_def reactivates_def)
  qed
next
  case (PostAdminCleanup t d)
  with assms show ?thesis by (simp add: inactive_cleanup)
qed

lemma transition_leaves_inactive:
  "accept_transition env r w k \<Longrightarrow> status_at (fst (handle env r w)) k \<noteq> Some ''active''"
  by (auto simp: accept_transition_def split: request.splits)

lemma no_transition_when_inactive:
  "status_at w k \<noteq> Some ''active'' \<Longrightarrow> \<not> accept_transition env r w k"
  by (auto simp: accept_transition_def split: request.splits)

lemma no_wins_when_inactive:
  "status_at w k \<noteq> Some ''active'' \<Longrightarrow> list_all (\<lambda>(env, r). \<not> reactivates env r k) rs \<Longrightarrow>
   accept_wins k rs w = 0"
proof (induction rs arbitrary: w)
  case Nil
  then show ?case by simp
next
  case (Cons a rs)
  obtain env r where a: "a = (env, r)" by (cases a)
  from Cons.prems a have "status_at (fst (handle env r w)) k \<noteq> Some ''active''"
    by (simp add: inactive_step)
  with Cons a show ?case
    by (simp add: no_transition_when_inactive)
qed

lemma at_most_one_win:
  "list_all (\<lambda>(env, r). \<not> reactivates env r k) rs \<Longrightarrow> accept_wins k rs w \<le> 1"
proof (induction rs arbitrary: w)
  case Nil
  then show ?case by simp
next
  case (Cons a rs)
  obtain env r where a: "a = (env, r)" by (cases a)
  show ?case
  proof (cases "accept_transition env r w k")
    case True
    then have "accept_wins k rs (fst (handle env r w)) = 0"
      using Cons.prems a by (intro no_wins_when_inactive transition_leaves_inactive) simp_all
    with True a show ?thesis by simp
  next
    case False
    with Cons a show ?thesis by simp
  qed
qed

lemma transaction_exclusive:
  "acceptTransaction env1 k v1 s = Inr s1 \<Longrightarrow>
     acceptTransaction env2 k v2 s1 = Inl ALREADY_TAKEN
     \<and> map_option volunteerId (map_of s1 k) = Some (Some (js_Number env1 v1))
     \<and> map_option status (map_of s k) = Some ''active''
     \<and> map_option status (map_of s1 k) = Some ''accepted''"
  by (auto simp: acceptTransaction_def update_conv' split: option.splits if_splits)

section \<open>Requests that go through\<close>

lemma notifyElderly_reliable: "reliable env \<Longrightarrow> snd (notifyElderly env k v w) = OkResponse"
  by (simp add: notifyElderly_def attempt_def Let_def reliable_def split: option.splits)

lemma notifyVolunteers_reliable:
  "reliable env \<Longrightarrow>
   snd (notifyVolunteers env body w) = Created (deriveEmergencyId env (field body ''timestamp''))"
  by (simp add: notifyVolunteers_def attempt_def Let_def reliable_def)

lemma accept_unfold:
  assumes "\<not> rejects env InitFirebase"
    and "StringToNumber env id_param = Finite k" "k \<noteq> 0"
    and "truthy (field body ''status'')" "js_String env (field body ''status'') = ''accepted''"
    and "truthy (field body ''volunteer_id'')"
    and "\<not> rejects env (RunTransaction k)"
  shows "put_emergency env id_param body w =
      (case acceptTransaction env k (field body ''volunteer_id'') (emergencies w) of
         Inl NOT_FOUND \<Rightarrow> (w\<lparr>journal := journal w @ [RunTransaction k]\<rparr>, NotFound)
       | Inl ALREADY_TAKEN \<Rightarrow> (w\<lparr>journal := journal w @ [RunTransaction k]\<rparr>, Conflict)
       | Inr store \<Rightarrow>
           notifyElderly env k (field body ''volunteer_id'')
             (w\<lparr>journal := journal w @ [RunTransaction k], emergencies := store\<rparr>))"
  using assms by (simp add: put_emergency_def acceptEmergency_def attempt_def Let_def)

lemma accept_success:
  assumes "reliable env"
    and "StringToNumber env id_param = Finite k" "k \<noteq> 0"
    and "truthy (field body ''status'')" "js_String env (field body ''status'') = ''accepted''"
    and "truthy (field body ''volunteer_id'')"
    and "status_at w k = Some ''active''"
  shows "snd (put_emergency env id_param body w) = OkResponse
       \<and> status_at (fst (put_emergency env id_param body w)) k = Some ''accepted''
       \<and> volunteer_at (fst (put_emergency env id_param body w)) k
           = Some (Some (js_Number env (field body ''volunteer_id'')))"
proof -
  have r: "\<not> rejects env InitFirebase" "\<not> rejects env (RunTransaction k)"
    using assms(1) by (simp_all add: reliable_def)
  from assms(7) obtain e where e: "map_of (emergencies w) k = Some e" "status e = ''active''"
    by (auto simp: status_at_def)
  show ?thesis
    using e assms(1)
    by (simp add: accept_unfold [OF r(1) assms(2-6) r(2)] acceptTransaction_def
          notifyElderly_reliable status_at_def volunteer_at_def update_conv')
qed

lemma accept_conflict:
  assumes "\<not> rejects env InitFirebase" "\<not> rejects env (RunTransaction k)"
    and "StringToNumber env id_param = Finite k" "k \<noteq> 0"
    and "truthy (field body ''status'')" "js_String env (field body ''status'') = ''accepted''"
    and "truthy (field body ''volunteer_id'')"
    and "status_at w k = Some s" "s \<noteq> ''active''"
  shows "snd (put_emergency env id_param body w) = Conflict
       \<and> emergencies (fst (put_emergency env id_param body w)) = emergencies w"
proof -
  from assms(8,9) obtain e where e: "map_of (emergencies w) k = Some e" "status e \<noteq> ''active''"
    by (auto simp: status_at_def)
  show ?thesis
    using e
    by (simp add: accept_unfold [OF assms(1) assms(3-7) assms(2)] acceptTransaction_def)
qed

lemma setStatus_success:
  assumes "reliable env"
    and "StringToNumber env id_param = Finite k" "k \<noteq> 0"
    and "truthy (field body ''status'')" "js_String env (field body ''status'') \<noteq> ''accepted''"
    and "map_of (emergencies w) k = Some e"
  shows "snd (put_emergency env id_param body w) = OkResponse
       \<and> map_of (emergencies (fst (put_emergency env id_param body w))) k
           = Some (applyPatch (statusPatch env (field body ''status'') (field body ''volunteer_id'')) e)"
  using assms
  by (simp add: put_emergency_def setStatus_def attempt_def Let_def reliable_def update_conv')

lemma report_success:
  assumes "reliable env" "valid_report body"
  shows "snd (post_emergencies env body w) = Created (deriveEmergencyId env (field body ''timestamp''))
       \<and> map_of (emergencies (fst (post_emergencies env body w)))
            (deriveEmergencyId env (field body ''timestamp'')) = Some (emergencyDoc env body)"
proof -
  have r: "\<not> rejects env InitFirebase" using assms(1) by (simp add: reliable_def)
  have "\<And>c. \<not> rejects env c" using assms(1) by (simp add: reliable_def)
  then show ?thesis
    by (simp add: report_after_validation [OF r assms(2)] attempt_def Let_def
          notifyVolunteers_reliable [OF assms(1)] update_conv')
qed

lemma accept_race:
  assumes "reliable env1" "\<not> rejects env2 InitFirebase" "\<not> rejects env2 (RunTransaction k)"
    and "StringToNumber env1 p1 = Finite k" "StringToNumber env2 p2 = Finite k" "k \<noteq> 0"
    and "truthy (field b1 ''status'')" "js_String env1 (field b1 ''status'') = ''accepted''"
    and "truthy (field b2 ''status'')" "js_String env2 (field b2 ''status'') = ''accepted''"
    and "truthy (field b1 ''volunteer_id'')" "truthy (field b2 ''volunteer_id'')"
    and "status_at w k = Some ''active''"
  shows "responses [(env1, PutEmergency p1 b1), (env2, PutEmergency p2 b2)] w = [OkResponse, Conflict]
       \<and> volunteer_at (run [(env1, PutEmergency p1 b1), (env2, PutEmergency p2 b2)] w) k
           = Some (Some (js_Number env1 (field b1 ''volunteer_id'')))
       \<and> status_at (run [(env1, PutEmergency p1 b1), (env2, PutEmergency p2 b2)] w) k = Some ''accepted''"
proof -
  let ?w1 = "fst (put_emergency env1 p1 b1 w)"
  have first: "snd (put_emergency env1 p1 b1 w) = OkResponse"
      "status_at ?w1 k = Some ''accepted''"
      "volunteer_at ?w1 k = Some (Some (js_Number env1 (field b1 ''volunteer_id'')))"
    using accept_success [OF assms(1) assms(4) assms(6) assms(7) assms(8) assms(11) assms(13)]
    by simp_all
  have second: "snd (put_emergency env2 p2 b2 ?w1) = Conflict"
      "emergencies (fst (put_emergency env2 p2 b2 ?w1)) = emergencies ?w1"
    using accept_conflict [OF assms(2) assms(3) assms(5) assms(6) assms(9) assms(10) assms(12) first(2)]
    by simp_all
  show ?thesis
    using first second by (simp add: status_at_def volunteer_at_def)
qed

section \<open>The volunteer of a record and its acceptance\<close>

lemma list_all_update:
  "list_all (\<lambda>(k, e). Q e) al \<Longrightarrow> Q v \<Longrightarrow> list_all (\<lambda>(k, e). Q e) (AList.update k' v al)"
  by (induction al) auto

lemma list_all_lookup:
  "list_all (\<lambda>(k, e). Q e) al \<Longrightarrow> map_of al k = Some e \<Longrightarrow> Q e"
  by (induction al) (auto split: if_splits)

lemma new_record_consistent:
  "status (emergencyDoc env body) \<noteq> ''accepted'' \<Longrightarrow> volunteer_iff_accepted (emergencyDoc env body)"
  by (simp add: volunteer_iff_accepted_def emergencyDoc_def Let_def)

lemma consistent_post:
  assumes "list_all (\<lambda>(k, e). volunteer_iff_accepted e) (emergencies w)"
    and "status (emergencyDoc env body) \<noteq> ''accepted''"
  shows "list_all (\<lambda>(k, e). volunteer_iff_accepted e) (emergencies (fst (post_emergencies env body w)))"
  using assms by (simp add: post_emergencies_store list_all_update new_record_consistent)

lemma consistent_accept:
  assumes "list_all (\<lambda>(k, e). volunteer_iff_accepted e) (emergencies w)"
  shows "list_all (\<lambda>(k, e). volunteer_iff_accepted e) (emergencies (fst (acceptEmergency env k v w)))"
  using assms
  by (auto simp: acceptEmergency_store acceptTransaction_def volunteer_iff_accepted_def
           intro!: list_all_update split: option.splits)

lemma consistent_setStatus:
  assumes "list_all (\<lambda>(k, e). volunteer_iff_accepted e) (emergencies w)"
    and "js_String env s \<noteq> ''accepted''"
  shows "list_all (\<lambda>(k, e). volunteer_iff_accepted e)
           (emergencies (fst (setStatus env k s JUndefined w)))"
proof (cases "map_of (emergencies w) k")
  case None
  with assms show ?thesis by (simp add: setStatus_store)
next
  case (Some e)
  with assms(1) have "volunteer_iff_accepted e"
    by (rule list_all_lookup [where Q = volunteer_iff_accepted])
  with assms(2) have "volunteer_iff_accepted (applyPatch (statusPatch env s JUndefined) e)"
    by (simp add: volunteer_iff_accepted_def applyPatch_def statusPatch_def)
  with Some assms(1) show ?thesis
    by (simp add: setStatus_store list_all_update)
qed

lemma consistent_cleanup:
  assumes "list_all (\<lambda>(k, e). volunteer_iff_accepted e) (emergencies w)"
  shows "list_all (\<lambda>(k, e). volunteer_iff_accepted e)
           (emergencies (fst (post_admin_cleanup env t d w)))"
proof -
  obtain S where "emergencies (fst (post_admin_cleanup env t d w)) = filter (\<lambda>(k, e). k \<notin> S) (emergencies w)"
    using cleanup_store by blast
  with assms show ?thesis
    by (simp add: list_all_iff)
qed

lemma consistent_step:
  assumes "list_all (\<lambda>(k, e). volunteer_iff_accepted e) (emergencies w)" "plain_request env r"
  shows "list_all (\<lambda>(k, e). volunteer_iff_accepted e) (emergencies (fst (handle env r w)))"
proof (cases r)
  case (PostEmergencies body)
  with assms show ?thesis by (simp add: plain_request_def consistent_post)
next
  case (PutEmergency p body)
  with assms show ?thesis
    using consistent_accept [OF assms(1)] consistent_setStatus [OF assms(1)]
    by (auto simp: plain_request_def put_emergency_store split: number.splits)
next
  case (PostAdminCleanup t d)
  with assms show ?thesis by (simp add: consistent_cleanup)
qed

lemma consistent_run:
  "list_all (\<lambda>(k, e). volunteer_iff_accepted e) (emergencies w) \<Longrightarrow>
   list_all (\<lambda>(env, r). plain_request env r) rs \<Longrightarrow>
   list_all (\<lambda>(k, e). volunteer_iff_accepted e) (emergencies (run rs w))"
proof (induction rs arbitrary: w)
  case Nil
  then show ?case by simp
next
  case (Cons a rs)
  obtain env r where a: "a = (env, r)" by (cases a)
  with Cons.prems have "list_all (\<lambda>(k, e). volunteer_iff_accepted e) (emergencies (fst (handle env r w)))"
    by (simp add: consistent_step)
  with Cons a show ?case by simp
qed

text \<open>acceptedAt is written by the accept transition and by nothing else.\<close>

lemma acceptedAt_origin:
  assumes "map_of (emergencies (fst (handle env r w))) k = Some e'" "acceptedAt e' \<noteq> None"
  shows "accept_transition env r w k
         \<or> (\<exists>e. map_of (emergencies w) k = Some e \<and> acceptedAt e = acceptedAt e')"
proof (cases r)
  case (PostEmergencies body)
  with assms show ?thesis
    by (auto simp: post_emergencies_store update_conv' emergencyDoc_def Let_def split: if_splits)
next
  case (PutEmergency p body)
  show ?thesis
  proof (cases "emergencies (fst (handle env r w)) = emergencies w")
    case True
    with assms show ?thesis by simp
  next
    case False
    with PutEmergency obtain k' where k': "StringToNumber env p = Finite k'"
      by (cases "StringToNumber env p") (auto simp: put_emergency_store split: if_splits)
    show ?thesis
    proof (cases "js_String env (field body ''status'') = ''accepted''")
      case True
      with False PutEmergency k' assms show ?thesis
        by (auto simp: put_emergency_store acceptEmergency_store acceptTransaction_def
              accept_transition_def status_at_def update_conv'
              split: if_splits option.splits)
    next
      case notacc: False
      with False PutEmergency k' assms show ?thesis
        by (auto simp: put_emergency_store setStatus_store applyPatch_def update_conv'
              split: if_splits option.splits)
    qed
  qed
next
  case (PostAdminCleanup t d)
  obtain S where "emergencies (fst (post_admin_cleanup env t d w)) = filter (\<lambda>(k, e). k \<notin> S) (emergencies w)"
    using cleanup_store by blast
  with PostAdminCleanup assms show ?thesis
    by (auto simp: map_of_filter_keys split: if_splits)
qed

section \<open>The example requests, served\<close>

lemma sample_env_reliable: "reliable sample_env"
  by (simp add: reliable_def sample_env_def)

lemma sample_id_1: "StringToNumber sample_env ''1'' = Finite 1"
  by (simp add: sample_env_def sample_StringToNumber_def digit_value_def)

lemma report_body_valid: "valid_report report_body"
  by (simp add: valid_report_def report_body_def field_def)

lemma report_body_id: "deriveEmergencyId env (field report_body ''timestamp'') = 1"
  by (simp add: deriveEmergencyId_def js_Number_def report_body_def field_def)

lemma report_body_status: "status (emergencyDoc env report_body) = ''active''"
  by (simp add: emergencyDoc_def Let_def report_body_def field_def js_String_def)

lemma accept_by_fields:
  "v \<noteq> 0 \<Longrightarrow> truthy (field (Some [''status'' \<mapsto> JStr ''accepted'', ''volunteer_id'' \<mapsto> JNum v]) ''status'')
    \<and> js_String env (field (Some [''status'' \<mapsto> JStr ''accepted'', ''volunteer_id'' \<mapsto> JNum v]) ''status'') = ''accepted''
    \<and> truthy (field (Some [''status'' \<mapsto> JStr ''accepted'', ''volunteer_id'' \<mapsto> JNum v]) ''volunteer_id'')
    \<and> js_Number env (field (Some [''status'' \<mapsto> JStr ''accepted'', ''volunteer_id'' \<mapsto> JNum v]) ''volunteer_id'') = Finite v"
  by (simp add: field_def js_String_def js_Number_def)

lemma sample_accept:
  assumes "v \<noteq> 0" "status_at w 1 = Some ''active''"
  shows "snd (handle sample_env (accept_by v) w) = OkResponse
       \<and> status_at (fst (handle sample_env (accept_by v) w)) 1 = Some ''accepted''
       \<and> volunteer_at (fst (handle sample_env (accept_by v) w)) 1 = Some (Some (Finite v))
       \<and> accept_transition sample_env (accept_by v) w 1"
proof -
  note f = accept_by_fields [OF assms(1), of sample_env]
  have "snd (put_emergency sample_env ''1'' (Some [''status'' \<mapsto> JStr ''accepted'', ''volunteer_id'' \<mapsto> JNum v]) w) = OkResponse
       \<and> status_at (fst (put_emergency sample_env ''1'' (Some [''status'' \<mapsto> JStr ''accepted'', ''volunteer_id'' \<mapsto> JNum v]) w)) 1 = Some ''accepted''
       \<and> volunteer_at (fst (put_emergency sample_env ''1'' (Some [''status'' \<mapsto> JStr ''accepted'', ''volunteer_id'' \<mapsto> JNum v]) w)) 1
           = Some (Some (js_Number sample_env (field (Some [''status'' \<mapsto> JStr ''accepted'', ''volunteer_id'' \<mapsto> JNum v]) ''volunteer_id'')))"
    by (rule accept_success [OF sample_env_reliable sample_id_1 _ _ _ _ assms(2)])
       (use f in simp_all)
  with f assms(2) show ?thesis
    by (simp add: accept_by_def accept_transition_def sample_id_1)
qed

lemma sample_set_status:
  assumes "s \<noteq> ''accepted''" "s \<noteq> []" "status_at w 1 = Some s0"
  shows "snd (handle sample_env (set_status s) w) = OkResponse
       \<and> status_at (fst (handle sample_env (set_status s) w)) 1 = Some s
       \<and> volunteer_at (fst (handle sample_env (set_status s) w)) 1 = volunteer_at w 1
       \<and> \<not> accept_transition sample_env (set_status s) w 1"
proof -
  from assms(3) obtain e where e: "map_of (emergencies w) 1 = Some e"
    by (auto simp: status_at_def)
  have "snd (put_emergency sample_env ''1'' (Some [''status'' \<mapsto> JStr s]) w) = OkResponse
       \<and> map_of (emergencies (fst (put_emergency sample_env ''1'' (Some [''status'' \<mapsto> JStr s]) w))) 1
           = Some (applyPatch (statusPatch sample_env (field (Some [''status'' \<mapsto> JStr s]) ''status'')
                     (field (Some [''status'' \<mapsto> JStr s]) ''volunteer_id'')) e)"
    by (rule setStatus_success [OF sample_env_reliable sample_id_1 _ _ _ e])
       (use assms in \<open>simp_all add: field_def js_String_def\<close>)
  with e assms(1) show ?thesis
    by (simp add: set_status_def status_at_def volunteer_at_def applyPatch_def statusPatch_def
          field_def js_String_def accept_transition_def)
qed

lemma new_record_volunteer [simp]:
  "volunteerId (emergencyDoc env body) = None" "acceptedAt (emergencyDoc env body) = None"
  by (simp_all add: emergencyDoc_def Let_def)

lemma sample_report:
  "snd (handle sample_env (PostEmergencies report_body) w) = Created 1
   \<and> status_at (fst (handle sample_env (PostEmergencies report_body) w)) 1 = Some ''active''
   \<and> volunteer_at (fst (handle sample_env (PostEmergencies report_body) w)) 1 = Some None
   \<and> \<not> accept_transition sample_env (PostEmergencies report_body) w 1"
  using report_success [OF sample_env_reliable report_body_valid, of w]
  by (simp add: report_body_id report_body_status status_at_def volunteer_at_def
        accept_transition_def)

section \<open>The error branches of Accept\<close>

text \<open>
  C2. For a request to accept that passes validation (a usable emergency id, status
  \<open>accepted\<close>, a truthy \<open>volunteer_id\<close>), with Firebase initialised and the transaction
  itself not rejected by the store: the answer is NotFound exactly when the collection
  holds no record under the id, and Conflict exactly when it holds one whose status is
  not \<open>active\<close>; in both cases the collections are as before (the world differs only by
  the journal entry of the transaction).
\<close>

theorem accept_not_found_and_conflict:
  assumes init: "\<not> rejects env InitFirebase"
    and id: "StringToNumber env id_param = Finite k" "k \<noteq> 0"
    and st: "truthy (field body ''status'')" "js_String env (field body ''status'') = ''accepted''"
    and vol: "truthy (field body ''volunteer_id'')"
    and tx: "\<not> rejects env (RunTransaction k)"
  shows "(snd (put_emergency env id_param body w) = NotFound \<longleftrightarrow> map_of (emergencies w) k = None)
       \<and> (snd (put_emergency env id_param body w) = Conflict \<longleftrightarrow>
            (\<exists>e. map_of (emergencies w) k = Some e \<and> status e \<noteq> ''active''))
       \<and> (snd (put_emergency env id_param body w) = NotFound
            \<or> snd (put_emergency env id_param body w) = Conflict \<longrightarrow>
          fst (put_emergency env id_param body w) = w\<lparr>journal := journal w @ [RunTransaction k]\<rparr>
          \<and> emergencies (fst (put_emergency env id_param body w)) = emergencies w
          \<and> audit_logs (fst (put_emergency env id_param body w)) = audit_logs w)"
proof -
  let ?w1 = "w\<lparr>journal := journal w @ [RunTransaction k]\<rparr>"
  have put: "put_emergency env id_param body w =
      (case acceptTransaction env k (field body ''volunteer_id'') (emergencies w) of
         Inl NOT_FOUND \<Rightarrow> (?w1, NotFound)
       | Inl ALREADY_TAKEN \<Rightarrow> (?w1, Conflict)
       | Inr store \<Rightarrow> notifyElderly env k (field body ''volunteer_id'') (?w1\<lparr>emergencies := store\<rparr>))"
    using assms by (simp add: put_emergency_def acceptEmergency_def attempt_def Let_def)
  show ?thesis
  proof (cases "map_of (emergencies w) k")
    case None
    then show ?thesis by (simp add: put acceptTransaction_def)
  next
    case (Some e)
    show ?thesis
    proof (cases "status e = ''active''")
      case True
      with Some show ?thesis by (simp add: put acceptTransaction_def)
    next
      case False
      with Some show ?thesis by (simp add: put acceptTransaction_def)
    qed
  qed
qed

theorem accept_not_found_and_conflict_witness:
  "\<not> rejects sample_env InitFirebase \<and> StringToNumber sample_env ''1'' = Finite 1
   \<and> StringToNumber sample_env ''2'' = Finite 2
   \<and> map_of (emergencies accepted_world) 1 = Some accepted_record
   \<and> status accepted_record \<noteq> ''active''
   \<and> map_of (emergencies accepted_world) 2 = None
   \<and> put_emergency sample_env ''1''
        (Some [''status'' \<mapsto> JStr ''accepted'', ''volunteer_id'' \<mapsto> JNum 9]) accepted_world
       = (accepted_world\<lparr>journal := [RunTransaction 1]\<rparr>, Conflict)
   \<and> put_emergency sample_env ''2''
        (Some [''status'' \<mapsto> JStr ''accepted'', ''volunteer_id'' \<mapsto> JNum 9]) accepted_world
       = (accepted_world\<lparr>journal := [RunTransaction 2]\<rparr>, NotFound)"
proof -
  have r: "\<not> rejects sample_env InitFirebase" "\<And>k. \<not> rejects sample_env (RunTransaction k)"
    by (simp_all add: sample_env_def)
  have id2: "StringToNumber sample_env ''2'' = Finite 2"
    by (simp add: sample_env_def sample_StringToNumber_def digit_value_def)
  have rec: "map_of (emergencies accepted_world) 1 = Some accepted_record"
      "status accepted_record \<noteq> ''active''" "map_of (emergencies accepted_world) 2 = None"
      "journal accepted_world = []"
    by (simp_all add: accepted_world_def empty_world_def accepted_record_def)
  note f = accept_by_fields [of 9 sample_env]
  have one: "snd (put_emergency sample_env ''1''
        (Some [''status'' \<mapsto> JStr ''accepted'', ''volunteer_id'' \<mapsto> JNum 9]) accepted_world) = Conflict
      \<and> fst (put_emergency sample_env ''1''
        (Some [''status'' \<mapsto> JStr ''accepted'', ''volunteer_id'' \<mapsto> JNum 9]) accepted_world)
          = accepted_world\<lparr>journal := [RunTransaction 1]\<rparr>"
    using accept_not_found_and_conflict
      [OF r(1) sample_id_1 _ _ _ _ r(2),
        of "Some [''status'' \<mapsto> JStr ''accepted'', ''volunteer_id'' \<mapsto> JNum 9]" accepted_world]
      f rec
    by simp
  have two: "snd (put_emergency sample_env ''2''
        (Some [''status'' \<mapsto> JStr ''accepted'', ''volunteer_id'' \<mapsto> JNum 9]) accepted_world) = NotFound
      \<and> fst (put_emergency sample_env ''2''
        (Some [''status'' \<mapsto> JStr ''accepted'', ''volunteer_id'' \<mapsto> JNum 9]) accepted_world)
          = accepted_world\<lparr>journal := [RunTransaction 2]\<rparr>"
    using accept_not_found_and_conflict
      [OF r(1) id2 _ _ _ _ r(2),
        of "Some [''status'' \<mapsto> JStr ''accepted'', ''volunteer_id'' \<mapsto> JNum 9]" accepted_world]
      f rec
    by simp
  show ?thesis
    using one two r(1) sample_id_1 id2 rec
    by (simp add: prod_eq_iff)
qed

section \<open>Report on an id that is already taken\<close>

lemma notifyVolunteers_response_cong:
  "devices w = devices w' \<Longrightarrow>
   snd (notifyVolunteers env body w) = snd (notifyVolunteers env body w')"
  by (simp add: notifyVolunteers_def attempt_def Let_def volunteerDevices_def)

lemma report_response_ignores_emergencies:
  "snd (post_emergencies env body w) = snd (post_emergencies env body (w\<lparr>emergencies := es\<rparr>))"
  by (auto simp: post_emergencies_def attempt_def Let_def intro!: notifyVolunteers_response_cong)

text \<open>
  C8 (amended). The report handler persists with \<open>set(..., { merge: false })\<close> and checks
  nothing before: when the validation passes and the write is not rejected, the record
  stored under the derived id afterwards is the newly built record, whatever was stored
  there before; records under other ids are untouched; and the answer of the call is the
  same as if the collection had held any other records, so a collision is not reported.
\<close>

theorem report_replaces_existing_record:
  assumes "\<not> rejects env InitFirebase" and "valid_report body"
    and "\<not> rejects env (EmergencySet (deriveEmergencyId env (field body ''timestamp'')) (emergencyDoc env body))"
  shows "map_of (emergencies (fst (post_emergencies env body w))) (deriveEmergencyId env (field body ''timestamp''))
           = Some (emergencyDoc env body)
       \<and> (\<forall>k. k \<noteq> deriveEmergencyId env (field body ''timestamp'') \<longrightarrow>
             map_of (emergencies (fst (post_emergencies env body w))) k = map_of (emergencies w) k)
       \<and> (\<forall>es. snd (post_emergencies env body (w\<lparr>emergencies := es\<rparr>)) = snd (post_emergencies env body w))"
  using assms report_response_ignores_emergencies [of env body w]
  by (simp add: post_emergencies_store update_conv')

text \<open>
  C8, counterexample. Emergency 1 is stored as accepted by volunteer 7; a report with
  \<open>timestamp = 1\<close> is answered 201 with id 1 and leaves under id 1 a fresh active record of
  another reporter, with no volunteer.
\<close>

theorem report_overwrites_accepted_record:
  "map_of (emergencies accepted_world) 1 = Some accepted_record
   \<and> status accepted_record = ''accepted'' \<and> volunteerId accepted_record = Some (Finite 7)
   \<and> deriveEmergencyId sample_env (field colliding_body ''timestamp'') = 1
   \<and> snd (post_emergencies sample_env colliding_body accepted_world) = Created 1
   \<and> map_of (emergencies (fst (post_emergencies sample_env colliding_body accepted_world))) 1
       = Some \<lparr> e_id = 1, elderlyId = Finite 2, latitude = 1, longitude = 2, status = ''active'',
                volunteerId = None, createdAt = 1700000000000, updatedAt = 1700000000000,
                acceptedAt = None \<rparr>"
proof -
  have v: "valid_report colliding_body"
    by (simp add: valid_report_def colliding_body_def field_def)
  have id: "\<And>env. deriveEmergencyId env (field colliding_body ''timestamp'') = 1"
    by (simp add: deriveEmergencyId_def js_Number_def colliding_body_def field_def)
  have doc: "emergencyDoc sample_env colliding_body =
      \<lparr> e_id = 1, elderlyId = Finite 2, latitude = 1, longitude = 2, status = ''active'',
        volunteerId = None, createdAt = 1700000000000, updatedAt = 1700000000000,
        acceptedAt = None \<rparr>"
    by (simp add: emergencyDoc_def Let_def deriveEmergencyId_def js_Number_def js_String_def
          colliding_body_def field_def sample_env_def)
  show ?thesis
    using report_success [OF sample_env_reliable v, of accepted_world]
    by (simp add: id doc accepted_world_def empty_world_def accepted_record_def)
qed

theorem report_replaces_existing_record_witness:
  "\<not> rejects sample_env InitFirebase \<and> valid_report colliding_body
   \<and> map_of (emergencies (fst (post_emergencies sample_env colliding_body accepted_world))) 1
       = Some (emergencyDoc sample_env colliding_body)
   \<and> volunteerId (emergencyDoc sample_env colliding_body) = None
   \<and> snd (post_emergencies sample_env colliding_body (accepted_world\<lparr>emergencies := []\<rparr>))
       = snd (post_emergencies sample_env colliding_body accepted_world)"
proof -
  have v: "valid_report colliding_body"
    by (simp add: valid_report_def colliding_body_def field_def)
  have i: "\<not> rejects sample_env InitFirebase" "\<And>c. \<not> rejects sample_env c"
    by (simp_all add: sample_env_def)
  have id: "deriveEmergencyId sample_env (field colliding_body ''timestamp'') = 1"
    by (simp add: deriveEmergencyId_def js_Number_def colliding_body_def field_def)
  show ?thesis
    using report_replaces_existing_record [OF i(1) v i(2), of accepted_world] v i(1)
    by (simp add: id)
qed

section \<open>Report: order of the writes and the push\<close>

text \<open>
  C3 (amended). For every report that passes validation (Firebase initialised): if a
  multicast push is issued at all, the calls issued before it are, in this order, the
  write of the emergency record, the \<open>created\<close> audit entry and the device query, none of
  them rejected, so the record is stored and the audit entry logged before the push is
  attempted. The push is awaited inside the handler's \<open>try\<close> block: when it rejects, the
  report is answered 500 although the record and the audit entry stay written; the
  report is answered 201 with the new id when none of the calls it issued rejected.
\<close>

theorem report_writes_before_dispatch:
  assumes init: "\<not> rejects env InitFirebase" and valid: "valid_report body"
  shows "(\<forall>tokens payload.
            SendEachForMulticast tokens payload \<in> set (issued w (fst (post_emergencies env body w))) \<longrightarrow>
              take 4 (issued w (fst (post_emergencies env body w))) =
                [EmergencySet (deriveEmergencyId env (field body ''timestamp'')) (emergencyDoc env body),
                 AuditAdd (createdAudit env body), DevicesQuery, SendEachForMulticast tokens payload]
              \<and> map_of (emergencies (fst (post_emergencies env body w)))
                    (deriveEmergencyId env (field body ''timestamp'')) = Some (emergencyDoc env body)
              \<and> createdAudit env body \<in> set (audit_logs (fst (post_emergencies env body w)))
              \<and> (rejects env (SendEachForMulticast tokens payload) \<longrightarrow>
                    snd (post_emergencies env body w) = ServerError))
       \<and> ((\<forall>c\<in>set (issued w (fst (post_emergencies env body w))). \<not> rejects env c) \<longrightarrow>
            snd (post_emergencies env body w) = Created (deriveEmergencyId env (field body ''timestamp'')))"
proof -
  let ?id = "deriveEmergencyId env (field body ''timestamp'')"
  let ?c1 = "EmergencySet ?id (emergencyDoc env body)"
  let ?c2 = "AuditAdd (createdAudit env body)"
  let ?tokens = "dispatchTokens env body w"
  let ?c4 = "SendEachForMulticast ?tokens (newEmergencyData env body)"
  note defs = report_after_validation [OF init valid] attempt_def Let_def issued_def
    notifyVolunteers_def dispatchTokens_def map_of_update_same
  consider (set_fails) "rejects env ?c1"
    | (audit_fails) "\<not> rejects env ?c1" "rejects env ?c2"
    | (query_fails) "\<not> rejects env ?c1" "\<not> rejects env ?c2" "rejects env DevicesQuery"
    | (nobody) "\<not> rejects env ?c1" "\<not> rejects env ?c2" "\<not> rejects env DevicesQuery" "?tokens = []"
    | (push_fails) "\<not> rejects env ?c1" "\<not> rejects env ?c2" "\<not> rejects env DevicesQuery"
        "?tokens \<noteq> []" "rejects env ?c4"
    | (pushed) "\<not> rejects env ?c1" "\<not> rejects env ?c2" "\<not> rejects env DevicesQuery"
        "?tokens \<noteq> []" "\<not> rejects env ?c4"
    by blast
  then show ?thesis
  proof cases
    case set_fails
    then show ?thesis by (simp add: defs)
  next
    case audit_fails
    then show ?thesis by (simp add: defs)
  next
    case query_fails
    then show ?thesis by (simp add: defs)
  next
    case nobody
    then show ?thesis by (simp add: defs)
  next
    case push_fails
    then show ?thesis by (simp add: defs)
  next
    case pushed
    then show ?thesis by (simp add: defs)
  qed
qed

lemma one_volunteer_tokens:
  "Date_now env 134 = 1700000000000 \<Longrightarrow> dispatchTokens env report_body one_volunteer_world = [''tokA'']"
  by (simp add: dispatchTokens_def volunteerDevices_def one_volunteer_world_def empty_world_def
        fresh_volunteer_def selectVolunteers_def topVolunteers_def volunteerEntry_def)

text \<open>
  C3, counterexample. One fresh volunteer with a token is registered and the multicast
  push rejects while every other call resolves: the valid report has its record written,
  its audit entry logged, the push attempted, and is answered 500, not 201.
\<close>

theorem report_fails_when_dispatch_rejects:
  "valid_report report_body
   \<and> \<not> rejects dispatch_fails_env InitFirebase
   \<and> issued one_volunteer_world (fst (post_emergencies dispatch_fails_env report_body one_volunteer_world)) =
       [EmergencySet 1 (emergencyDoc dispatch_fails_env report_body),
        AuditAdd (createdAudit dispatch_fails_env report_body), DevicesQuery,
        SendEachForMulticast [''tokA''] (newEmergencyData dispatch_fails_env report_body)]
   \<and> rejects dispatch_fails_env (SendEachForMulticast [''tokA''] (newEmergencyData dispatch_fails_env report_body))
   \<and> snd (post_emergencies dispatch_fails_env report_body one_volunteer_world) = ServerError
   \<and> http_status (snd (post_emergencies dispatch_fails_env report_body one_volunteer_world)) = 500"
proof -
  have i: "\<not> rejects dispatch_fails_env InitFirebase"
    by (simp add: dispatch_fails_env_def sample_env_def)
  have t: "dispatchTokens dispatch_fails_env report_body one_volunteer_world = [''tokA'']"
    by (rule one_volunteer_tokens) (simp add: dispatch_fails_env_def sample_env_def)
  have r: "\<And>c. rejects dispatch_fails_env c = (case c of SendEachForMulticast tokens payload \<Rightarrow> True | _ \<Rightarrow> False)"
    by (simp add: dispatch_fails_env_def)
  show ?thesis
    using report_body_valid i t
    by (simp add: report_after_validation [OF i report_body_valid] attempt_def Let_def issued_def
          notifyVolunteers_def report_body_id r dispatchTokens_def)
qed

theorem report_writes_before_dispatch_witness:
  "\<not> rejects sample_env InitFirebase \<and> valid_report report_body
   \<and> SendEachForMulticast [''tokA''] (newEmergencyData sample_env report_body)
       \<in> set (issued one_volunteer_world (fst (post_emergencies sample_env report_body one_volunteer_world)))
   \<and> take 4 (issued one_volunteer_world (fst (post_emergencies sample_env report_body one_volunteer_world))) =
       [EmergencySet 1 (emergencyDoc sample_env report_body),
        AuditAdd (createdAudit sample_env report_body), DevicesQuery,
        SendEachForMulticast [''tokA''] (newEmergencyData sample_env report_body)]
   \<and> map_of (emergencies (fst (post_emergencies sample_env report_body one_volunteer_world))) 1
       = Some (emergencyDoc sample_env report_body)
   \<and> createdAudit sample_env report_body
       \<in> set (audit_logs (fst (post_emergencies sample_env report_body one_volunteer_world)))
   \<and> snd (post_emergencies sample_env report_body one_volunteer_world) = Created 1"
proof -
  have i: "\<not> rejects sample_env InitFirebase" and r: "\<And>c. \<not> rejects sample_env c"
    by (simp_all add: sample_env_def)
  have t: "dispatchTokens sample_env report_body one_volunteer_world = [''tokA'']"
    by (rule one_volunteer_tokens) (simp add: sample_env_def)
  have sent: "SendEachForMulticast [''tokA''] (newEmergencyData sample_env report_body)
       \<in> set (issued one_volunteer_world (fst (post_emergencies sample_env report_body one_volunteer_world)))"
    using t r
    by (simp add: report_after_validation [OF i report_body_valid] attempt_def Let_def issued_def
          notifyVolunteers_def dispatchTokens_def)
  show ?thesis
    using report_writes_before_dispatch [OF i report_body_valid, of one_volunteer_world] sent i r
    by (simp add: report_body_valid report_body_id)
qed

section \<open>Accept wins at most once\<close>

text \<open>
  C1, counterexample. Served one after the other from the empty world: a report creates
  emergency 1, volunteer 7 accepts it, a generic status update puts it back to \<open>active\<close>,
  and volunteer 9 accepts it. Every call is answered with success, the record goes from
  \<open>active\<close> to \<open>accepted\<close> twice, and the volunteer stored at the end is 9, not 7.
\<close>

theorem accept_wins_twice_after_reactivation:
  "responses [(sample_env, PostEmergencies report_body), (sample_env, accept_by 7),
              (sample_env, set_status ''active''), (sample_env, accept_by 9)] empty_world
     = [Created 1, OkResponse, OkResponse, OkResponse]
   \<and> accept_wins 1 [(sample_env, PostEmergencies report_body), (sample_env, accept_by 7),
              (sample_env, set_status ''active''), (sample_env, accept_by 9)] empty_world = 2
   \<and> volunteer_at (run [(sample_env, PostEmergencies report_body), (sample_env, accept_by 7)]
        empty_world) 1 = Some (Some (Finite 7))
   \<and> volunteer_at (run [(sample_env, PostEmergencies report_body), (sample_env, accept_by 7),
              (sample_env, set_status ''active''), (sample_env, accept_by 9)] empty_world) 1
       = Some (Some (Finite 9))"
proof -
  let ?w1 = "fst (handle sample_env (PostEmergencies report_body) empty_world)"
  let ?w2 = "fst (handle sample_env (accept_by 7) ?w1)"
  let ?w3 = "fst (handle sample_env (set_status ''active'') ?w2)"
  note s1 = sample_report [of empty_world]
  from s1 have a1: "status_at ?w1 1 = Some ''active''" by simp
  note s2 = sample_accept [OF _ a1, of 7]
  from s2 have a2: "status_at ?w2 1 = Some ''accepted''" by simp
  note s3 = sample_set_status [OF _ _ a2, of "''active''"]
  from s3 have a3: "status_at ?w3 1 = Some ''active''" by simp
  note s4 = sample_accept [OF _ a3, of 9]
  show ?thesis
    using s1 s2 s3 s4 by simp
qed

lemma accept_ok_is_transition:
  assumes "StringToNumber env p = Finite k"
    and "js_String env (field body ''status'') = ''accepted''"
    and "snd (handle env (PutEmergency p body) w) = OkResponse"
  shows "accept_transition env (PutEmergency p body) w k"
proof -
  from assms have ok: "snd (acceptEmergency env k (field body ''volunteer_id'') w) = OkResponse"
    and same: "put_emergency env p body w = acceptEmergency env k (field body ''volunteer_id'') w"
    by (auto simp: put_emergency_def split: if_splits)
  from ok obtain store where
      tx: "acceptTransaction env k (field body ''volunteer_id'') (emergencies w) = Inr store"
    and after: "emergencies (fst (acceptEmergency env k (field body ''volunteer_id'') w)) = store"
    by (auto simp: acceptEmergency_def attempt_def Let_def
          split: if_splits sum.splits tx_error.splits)
  from tx have "map_option status (map_of (emergencies w) k) = Some ''active''"
      "map_option status (map_of store k) = Some ''accepted''"
    using transaction_exclusive [of env k "field body ''volunteer_id''" "emergencies w" store env JNull]
    by simp_all
  with after same assms(1,2) show ?thesis
    by (simp add: accept_transition_def status_at_def)
qed

text \<open>
  C1 (amended). The accept transaction is one conditional update of the collection: once
  it has committed for an id, the record is \<open>accepted\<close> with the committing caller's
  volunteer, and any transaction run afterwards on the same id fails with ALREADY_TAKEN;
  the steps that follow a commit never write to the collection. Hence, while a list of
  requests is served in which no request puts the record back to \<open>active\<close> (no report
  deriving the same id, no generic status update of it to \<open>active\<close>), at most one Accept
  call takes the record from \<open>active\<close> to \<open>accepted\<close>. And when two valid Accept calls
  for the same active emergency are served one after the other in either order, with no
  collaborator failure in the first and the transaction of the second not rejected by
  the store, the first is answered with success, the second with Conflict, and the
  stored volunteer is the first caller's. An Accept call that is answered with success
  has made the transition, so at most one is answered with success as well.
\<close>

theorem accept_wins_once_until_reactivated:
  "emergencies (fst (notifyElderly env0 k0 v0 w0)) = emergencies w0
   \<and> (acceptTransaction env1 k v1 s = Inr s1 \<longrightarrow>
      acceptTransaction env2 k v2 s1 = Inl ALREADY_TAKEN
      \<and> map_option volunteerId (map_of s1 k) = Some (Some (js_Number env1 v1))
      \<and> map_option status (map_of s k) = Some ''active''
      \<and> map_option status (map_of s1 k) = Some ''accepted'')
   \<and> (list_all (\<lambda>(env, r). \<not> reactivates env r k) rs \<longrightarrow> accept_wins k rs w \<le> 1)
   \<and> (reliable env1 \<and> \<not> rejects env2 InitFirebase \<and> \<not> rejects env2 (RunTransaction k)
        \<and> StringToNumber env1 p1 = Finite k \<and> StringToNumber env2 p2 = Finite k \<and> k \<noteq> 0
        \<and> truthy (field b1 ''status'') \<and> js_String env1 (field b1 ''status'') = ''accepted''
        \<and> truthy (field b2 ''status'') \<and> js_String env2 (field b2 ''status'') = ''accepted''
        \<and> truthy (field b1 ''volunteer_id'') \<and> truthy (field b2 ''volunteer_id'')
        \<and> status_at w k = Some ''active'' \<longrightarrow>
      responses [(env1, PutEmergency p1 b1), (env2, PutEmergency p2 b2)] w = [OkResponse, Conflict]
      \<and> volunteer_at (run [(env1, PutEmergency p1 b1), (env2, PutEmergency p2 b2)] w) k
          = Some (Some (js_Number env1 (field b1 ''volunteer_id'')))
      \<and> status_at (run [(env1, PutEmergency p1 b1), (env2, PutEmergency p2 b2)] w) k = Some ''accepted'')
   \<and> (StringToNumber env p = Finite k \<and> js_String env (field body ''status'') = ''accepted''
        \<and> snd (handle env (PutEmergency p body) w) = OkResponse \<longrightarrow>
      accept_transition env (PutEmergency p body) w k)"
  using transaction_exclusive [of env1 k v1 s s1 env2 v2] at_most_one_win [of k rs w]
    accept_race [of env1 env2 k p1 p2 b1 b2 w] notifyElderly_emergencies [of env0 k0 v0 w0]
    accept_ok_is_transition [of env p k body w]
  by blast

theorem accept_wins_once_until_reactivated_witness:
  "acceptTransaction sample_env 1 (JNum 7) (emergencies active_world)
     = Inr [(1, accepted_record\<lparr>acceptedAt := Some 1700000000000, updatedAt := 1700000000000\<rparr>)]
   \<and> acceptTransaction sample_env 1 (JNum 9)
        [(1, accepted_record\<lparr>acceptedAt := Some 1700000000000, updatedAt := 1700000000000\<rparr>)]
       = Inl ALREADY_TAKEN
   \<and> list_all (\<lambda>(env, r). \<not> reactivates env r 1)
        [(sample_env, accept_by 7), (sample_env, set_status ''resolved''), (sample_env, accept_by 9)]
   \<and> accept_wins 1
        [(sample_env, accept_by 7), (sample_env, set_status ''resolved''), (sample_env, accept_by 9)]
        active_world \<le> 1
   \<and> status_at active_world 1 = Some ''active''
   \<and> responses [(sample_env, PutEmergency ''1'' (Some [''status'' \<mapsto> JStr ''accepted'', ''volunteer_id'' \<mapsto> JNum 7])),
                 (sample_env, PutEmergency ''1'' (Some [''status'' \<mapsto> JStr ''accepted'', ''volunteer_id'' \<mapsto> JNum 9]))]
        active_world = [OkResponse, Conflict]
   \<and> volunteer_at
        (run [(sample_env, PutEmergency ''1'' (Some [''status'' \<mapsto> JStr ''accepted'', ''volunteer_id'' \<mapsto> JNum 7])),
              (sample_env, PutEmergency ''1'' (Some [''status'' \<mapsto> JStr ''accepted'', ''volunteer_id'' \<mapsto> JNum 9]))]
           active_world) 1 = Some (Some (Finite 7))
   \<and> accept_transition sample_env
        (PutEmergency ''1'' (Some [''status'' \<mapsto> JStr ''accepted'', ''volunteer_id'' \<mapsto> JNum 7]))
        active_world 1"
proof -
  have tx: "acceptTransaction sample_env 1 (JNum 7) (emergencies active_world)
     = Inr [(1, accepted_record\<lparr>acceptedAt := Some 1700000000000, updatedAt := 1700000000000\<rparr>)]"
    by (simp add: acceptTransaction_def active_world_def empty_world_def accepted_record_def
          js_Number_def sample_env_def)
  have quiet: "list_all (\<lambda>(env, r). \<not> reactivates env r 1)
        [(sample_env, accept_by 7), (sample_env, set_status ''resolved''), (sample_env, accept_by 9)]"
    by (simp add: reactivates_def accept_by_def set_status_def field_def js_String_def)
  have act: "status_at active_world 1 = Some ''active''"
    by (simp add: status_at_def active_world_def empty_world_def accepted_record_def)
  have r: "\<not> rejects sample_env InitFirebase" "\<not> rejects sample_env (RunTransaction 1)"
    by (simp_all add: sample_env_def)
  note inst = accept_wins_once_until_reactivated
    [where ?env1.0 = sample_env and k = 1 and ?v1.0 = "JNum 7" and s = "emergencies active_world"
       and ?s1.0 = "[(1, accepted_record\<lparr>acceptedAt := Some 1700000000000, updatedAt := 1700000000000\<rparr>)]"
       and ?env2.0 = sample_env and ?v2.0 = "JNum 9"
       and rs = "[(sample_env, accept_by 7), (sample_env, set_status ''resolved''), (sample_env, accept_by 9)]"
       and w = active_world and ?p1.0 = "''1''" and ?p2.0 = "''1''"
       and ?b1.0 = "Some [''status'' \<mapsto> JStr ''accepted'', ''volunteer_id'' \<mapsto> JNum 7]"
       and ?b2.0 = "Some [''status'' \<mapsto> JStr ''accepted'', ''volunteer_id'' \<mapsto> JNum 9]"
       and env = sample_env and p = "''1''"
       and body = "Some [''status'' \<mapsto> JStr ''accepted'', ''volunteer_id'' \<mapsto> JNum 7]"]
  show ?thesis
    using inst tx quiet act r sample_env_reliable sample_id_1
      accept_by_fields [of 7 sample_env] accept_by_fields [of 9 sample_env]
    by simp
qed

section \<open>The volunteer is set exactly by acceptance\<close>

lemma transition_sets_volunteer:
  assumes "accept_transition env r w k"
  shows "\<exists>e'. map_of (emergencies (fst (handle env r w))) k = Some e' \<and> status e' = ''accepted''
            \<and> acceptedAt e' \<noteq> None \<and> volunteerId e' \<noteq> None"
proof -
  from assms obtain p body where r: "r = PutEmergency p body"
    and p: "StringToNumber env p = Finite k"
    and st: "js_String env (field body ''status'') = ''accepted''"
    and before: "status_at w k = Some ''active''"
    and after: "status_at (fst (put_emergency env p body w)) k = Some ''accepted''"
    by (auto simp: accept_transition_def split: request.splits)
  from before after have changed: "emergencies (fst (put_emergency env p body w)) \<noteq> emergencies w"
    by (auto simp: status_at_def)
  with p st have "emergencies (fst (put_emergency env p body w))
      = emergencies (fst (acceptEmergency env k (field body ''volunteer_id'') w))"
    by (auto simp: put_emergency_store split: if_splits)
  with changed before r show ?thesis
    by (auto simp: acceptEmergency_store acceptTransaction_def status_at_def update_conv'
          split: if_splits option.splits)
qed

text \<open>
  C4 (amended). A record counts as having passed through \<open>accepted\<close> when its \<open>acceptedAt\<close>
  is set: a request leaves a record with \<open>acceptedAt\<close> set only if it is an Accept call
  that took the record from \<open>active\<close> to \<open>accepted\<close> or the record had it set before, and
  such an Accept call leaves the record \<open>accepted\<close> with \<open>acceptedAt\<close> and a volunteer. For the
  records of a world reached by serving reports that do not ask for the status
  \<open>accepted\<close>, Accept calls, generic status updates that carry no \<open>volunteer_id\<close> and
  cleanups, from a world whose records satisfy it (the empty one does): the volunteer is
  set if and only if the record has passed through \<open>accepted\<close>, and a record whose status
  is \<open>accepted\<close> has a volunteer.
\<close>

theorem volunteer_set_iff_accepted_for_plain_requests:
  "(list_all (\<lambda>(k, e). volunteer_iff_accepted e) (emergencies w)
      \<and> list_all (\<lambda>(env, r). plain_request env r) rs \<longrightarrow>
    list_all (\<lambda>(k, e). volunteer_iff_accepted e) (emergencies (run rs w)))
   \<and> (map_of (emergencies (fst (handle env r w))) k = Some e' \<and> acceptedAt e' \<noteq> None \<longrightarrow>
        accept_transition env r w k
        \<or> (\<exists>e. map_of (emergencies w) k = Some e \<and> acceptedAt e = acceptedAt e'))
   \<and> (accept_transition env r w k \<longrightarrow>
        (\<exists>e'. map_of (emergencies (fst (handle env r w))) k = Some e' \<and> status e' = ''accepted''
            \<and> acceptedAt e' \<noteq> None \<and> volunteerId e' \<noteq> None))"
  using consistent_run [of w rs] acceptedAt_origin [of env r w k e']
    transition_sets_volunteer [of env r w k]
  by blast

text \<open>
  C4, counterexample. From the empty world: a report creates emergency 1 and a generic
  status update with \<open>status = resolved\<close> and \<open>volunteer_id = 9\<close> leaves it \<open>resolved\<close> with
  volunteer 9 although it was never accepted; and a report that asks for the status
  \<open>accepted\<close> creates an \<open>accepted\<close> record whose volunteer is null.
\<close>

theorem volunteer_without_accept_and_accept_without_volunteer:
  "responses [(sample_env, PostEmergencies report_body),
              (sample_env, set_status_and_volunteer ''resolved'' 9)] empty_world
     = [Created 1, OkResponse]
   \<and> status_at (run [(sample_env, PostEmergencies report_body)] empty_world) 1 = Some ''active''
   \<and> status_at (run [(sample_env, PostEmergencies report_body),
              (sample_env, set_status_and_volunteer ''resolved'' 9)] empty_world) 1 = Some ''resolved''
   \<and> volunteer_at (run [(sample_env, PostEmergencies report_body),
              (sample_env, set_status_and_volunteer ''resolved'' 9)] empty_world) 1
       = Some (Some (Finite 9))
   \<and> accept_wins 1 [(sample_env, PostEmergencies report_body),
              (sample_env, set_status_and_volunteer ''resolved'' 9)] empty_world = 0
   \<and> responses [(sample_env, PostEmergencies accepted_report_body)] empty_world = [Created 1]
   \<and> status_at (run [(sample_env, PostEmergencies accepted_report_body)] empty_world) 1
       = Some ''accepted''
   \<and> volunteer_at (run [(sample_env, PostEmergencies accepted_report_body)] empty_world) 1
       = Some None"
proof -
  let ?w1 = "fst (handle sample_env (PostEmergencies report_body) empty_world)"
  let ?b = "Some [''status'' \<mapsto> JStr ''resolved'', ''volunteer_id'' \<mapsto> JNum 9]"
  note s1 = sample_report [of empty_world]
  from s1 obtain e where e: "map_of (emergencies ?w1) 1 = Some e"
    by (auto simp: status_at_def)
  have s2: "snd (put_emergency sample_env ''1'' ?b ?w1) = OkResponse
       \<and> map_of (emergencies (fst (put_emergency sample_env ''1'' ?b ?w1))) 1
           = Some (applyPatch (statusPatch sample_env (field ?b ''status'') (field ?b ''volunteer_id'')) e)"
    by (rule setStatus_success [OF sample_env_reliable sample_id_1 _ _ _ e])
       (simp_all add: field_def js_String_def)
  have patched: "status (applyPatch (statusPatch sample_env (field ?b ''status'') (field ?b ''volunteer_id'')) e) = ''resolved''"
      "volunteerId (applyPatch (statusPatch sample_env (field ?b ''status'') (field ?b ''volunteer_id'')) e) = Some (Finite 9)"
    by (simp_all add: applyPatch_def statusPatch_def field_def js_String_def js_Number_def)
  have notacc: "\<not> accept_transition sample_env (set_status_and_volunteer ''resolved'' 9) ?w1 1"
    by (simp add: accept_transition_def set_status_and_volunteer_def field_def js_String_def)
  have v: "valid_report accepted_report_body"
    by (simp add: valid_report_def accepted_report_body_def field_def)
  have id: "deriveEmergencyId sample_env (field accepted_report_body ''timestamp'') = 1"
    by (simp add: deriveEmergencyId_def js_Number_def accepted_report_body_def field_def)
  have st: "status (emergencyDoc sample_env accepted_report_body) = ''accepted''"
    by (simp add: emergencyDoc_def Let_def accepted_report_body_def field_def js_String_def)
  note s3 = report_success [OF sample_env_reliable v, of empty_world]
  show ?thesis
    using s1 s2 patched notacc s3
    by (simp add: set_status_and_volunteer_def status_at_def volunteer_at_def id st)
qed

theorem volunteer_set_iff_accepted_for_plain_requests_witness:
  "list_all (\<lambda>(k, e). volunteer_iff_accepted e) (emergencies empty_world)
   \<and> list_all (\<lambda>(env, r). plain_request env r)
        [(sample_env, PostEmergencies report_body), (sample_env, accept_by 7),
         (sample_env, set_status ''resolved'')]
   \<and> list_all (\<lambda>(k, e). volunteer_iff_accepted e)
        (emergencies (run [(sample_env, PostEmergencies report_body), (sample_env, accept_by 7),
                           (sample_env, set_status ''resolved'')] empty_world))
   \<and> status_at (run [(sample_env, PostEmergencies report_body), (sample_env, accept_by 7),
                      (sample_env, set_status ''resolved'')] empty_world) 1 = Some ''resolved''
   \<and> volunteer_at (run [(sample_env, PostEmergencies report_body), (sample_env, accept_by 7),
                         (sample_env, set_status ''resolved'')] empty_world) 1 = Some (Some (Finite 7))
   \<and> accept_transition sample_env (accept_by 7) active_world 1
   \<and> (\<exists>e'. map_of (emergencies (fst (handle sample_env (accept_by 7) active_world))) 1 = Some e'
          \<and> status e' = ''accepted'' \<and> acceptedAt e' \<noteq> None \<and> volunteerId e' \<noteq> None)"
proof -
  let ?rs = "[(sample_env, PostEmergencies report_body), (sample_env, accept_by 7),
              (sample_env, set_status ''resolved'')]"
  let ?w1 = "fst (handle sample_env (PostEmergencies report_body) empty_world)"
  let ?w2 = "fst (handle sample_env (accept_by 7) ?w1)"
  have start: "list_all (\<lambda>(k, e). volunteer_iff_accepted e) (emergencies empty_world)"
    by (simp add: empty_world_def)
  have plain: "list_all (\<lambda>(env, r). plain_request env r) ?rs"
    by (simp add: plain_request_def report_body_status accept_by_def set_status_def field_def
          js_String_def)
  note s1 = sample_report [of empty_world]
  from s1 have a1: "status_at ?w1 1 = Some ''active''" by simp
  note s2 = sample_accept [OF _ a1, of 7]
  from s2 have a2: "status_at ?w2 1 = Some ''accepted''" by simp
  note s3 = sample_set_status [OF _ _ a2, of "''resolved''"]
  have act: "status_at active_world 1 = Some ''active''"
    by (simp add: status_at_def active_world_def empty_world_def accepted_record_def)
  note s4 = sample_accept [OF _ act, of 7]
  from s4 have tr: "accept_transition sample_env (accept_by 7) active_world 1" by simp
  show ?thesis
    using volunteer_set_iff_accepted_for_plain_requests [where w = empty_world and rs = ?rs]
      volunteer_set_iff_accepted_for_plain_requests
        [where w = active_world and env = sample_env and r = "accept_by 7" and k = 1]
      start plain s1 s2 s3 tr
    by simp
qed

end
